theory Spec2Isabelle
  imports Complex_Main "HOL-Library.Word"
begin

section \<open>Shared vocabulary of the gateway\<close>

text \<open>
  Byte strings (\<open>bytes\<close>, \<open>bytearray\<close>, \<open>memoryview\<close>) are lists of 8-bit words, hashes
  (\<open>Sha256Hash\<close>, \<open>BtcObjectHash\<close>) are their binary contents. Python slicing
  \<open>buf[a:b]\<close> never raises and is \<open>slice\<close>; indexing \<open>buf[i]\<close> raises out of range.
\<close>

type_synonym byte = "8 word"
type_synonym bytes = "byte list"
type_synonym Sha256Hash = bytes

definition slice :: "'a list \<Rightarrow> nat \<Rightarrow> nat \<Rightarrow> 'a list" where
  "slice buf a b = take (b - a) (drop a buf)"

datatype MessageConversionType = BLOCK_COMPRESSION | BLOCK_DECOMPRESSION

datatype py_exception =
    IndexError | TypeError | AttributeError | StructError | KeyError | ZeroDivisionError

text \<open>
  \<open>MessageConversionError\<close> carries \<open>msg_hash\<close> and \<open>conversion_type\<close>; it is the only
  exception the block processing service catches. Every other exception leaves the
  handler (\<open>PyError\<close>).
\<close>

datatype error =
    MessageConversionError Sha256Hash MessageConversionType
  | PyError py_exception

datatype ConnectionType = RELAY_TRANSACTION | RELAY_BLOCK | GATEWAY | BLOCKCHAIN_NODE

text \<open>
  A connection as the handlers use it: its description, its network number and the flag
  set \<open>CONNECTION_TYPE\<close> (\<open>RELAY_ALL\<close> is both relay flags; \<open>T & flag\<close> is membership).
\<close>

record connection =
  peer_desc :: string
  conn_network_num :: nat
  CONNECTION_TYPE :: "ConnectionType list"

definition RELAY_ALL :: "ConnectionType list" where
  "RELAY_ALL = [RELAY_TRANSACTION, RELAY_BLOCK]"

text \<open>A block message of the blockchain node: \<open>block_hash()\<close> and \<open>rawbytes()\<close>.\<close>

record BlockMessage =
  blk_hash :: Sha256Hash
  blk_buf :: bytes

text \<open>\<open>BlockInfo\<close>, without the wall-clock and compression-rate statistics fields.\<close>

record BlockInfo =
  info_block_hash :: Sha256Hash
  info_short_ids :: "nat list"
  info_txn_count :: nat
  info_original_size :: nat
  info_compressed_size :: nat

subsection \<open>Transaction service\<close>

text \<open>
  Modelled from the spec: the transaction service belongs to the bxcommon dependency. Its
  state is the three maps of the spec (hash to short ids, short id to hash, hash to
  contents); \<open>NULL_TX_SID\<close> is the reserved short id 0.
\<close>

record TransactionService =
  tx_hash_to_short_ids :: "Sha256Hash \<Rightarrow> nat list"
  short_id_to_tx_hash :: "nat \<Rightarrow> Sha256Hash option"
  tx_hash_to_contents :: "Sha256Hash \<Rightarrow> bytes option"

definition NULL_TX_SID :: nat where
  "NULL_TX_SID = 0"

definition has_transaction_short_id :: "TransactionService \<Rightarrow> Sha256Hash \<Rightarrow> bool" where
  "has_transaction_short_id ts h = (tx_hash_to_short_ids ts h \<noteq> [])"

definition has_transaction_contents :: "TransactionService \<Rightarrow> Sha256Hash \<Rightarrow> bool" where
  "has_transaction_contents ts h = (tx_hash_to_contents ts h \<noteq> None)"

definition has_short_id :: "TransactionService \<Rightarrow> nat \<Rightarrow> bool" where
  "has_short_id ts sid = (short_id_to_tx_hash ts sid \<noteq> None)"

definition get_short_id :: "TransactionService \<Rightarrow> Sha256Hash \<Rightarrow> nat" where
  "get_short_id ts h = (case tx_hash_to_short_ids ts h of [] \<Rightarrow> NULL_TX_SID | sid # _ \<Rightarrow> sid)"

definition get_transaction ::
  "TransactionService \<Rightarrow> nat \<Rightarrow> Sha256Hash option \<times> bytes option \<times> nat" where
  "get_transaction ts sid =
     (case short_id_to_tx_hash ts sid of
        None \<Rightarrow> (None, None, sid)
      | Some h \<Rightarrow> (Some h, tx_hash_to_contents ts h, sid))"

text \<open>
  \<open>get_missing_transactions(sids)\<close>: the short ids with no known hash, and the hashes of
  the short ids with a hash but no contents.
\<close>

fun get_missing_transactions ::
  "TransactionService \<Rightarrow> nat list \<Rightarrow> bool \<times> nat list \<times> Sha256Hash list" where
  "get_missing_transactions ts [] = (False, [], [])"
| "get_missing_transactions ts (sid # sids) =
     (case get_missing_transactions ts sids of (missing, unknown_sids, unknown_hashes) \<Rightarrow>
        (case short_id_to_tx_hash ts sid of
           None \<Rightarrow> (True, sid # unknown_sids, unknown_hashes)
         | Some h \<Rightarrow>
             (if tx_hash_to_contents ts h = None then (True, unknown_sids, h # unknown_hashes)
              else (missing, unknown_sids, unknown_hashes))))"

text \<open>
  \<open>assign_short_id\<close> is idempotent and binds the short id to the hash;
  \<open>set_transaction_contents\<close> keeps the first contents written for a hash.
\<close>

definition assign_short_id :: "Sha256Hash \<Rightarrow> nat \<Rightarrow> TransactionService \<Rightarrow> TransactionService" where
  "assign_short_id h sid ts =
     ts\<lparr>tx_hash_to_short_ids :=
          (tx_hash_to_short_ids ts)
            (h := (if sid \<in> set (tx_hash_to_short_ids ts h) then tx_hash_to_short_ids ts h
                   else tx_hash_to_short_ids ts h @ [sid])),
        short_id_to_tx_hash := (short_id_to_tx_hash ts)(sid \<mapsto> h)\<rparr>"

definition set_transaction_contents ::
  "Sha256Hash \<Rightarrow> bytes \<Rightarrow> TransactionService \<Rightarrow> TransactionService" where
  "set_transaction_contents h contents ts =
     (case tx_hash_to_contents ts h of
        Some _ \<Rightarrow> ts
      | None \<Rightarrow> ts\<lparr>tx_hash_to_contents := (tx_hash_to_contents ts)(h \<mapsto> contents)\<rparr>)"

section \<open>Block processing service\<close>

subsection \<open>Collaborators of the service\<close>

datatype BlockStatEventType =
    BLOCK_HOLD_REQUESTED | BLOCK_HOLD_SENT_BY_GATEWAY_TO_PEERS | BLOCK_HOLD_HELD_BLOCK
  | BLOCK_HOLD_LIFTED | BLOCK_HOLD_TIMED_OUT
  | ENC_BLOCK_RECEIVED_BY_GATEWAY_FROM_NETWORK | ENC_BLOCK_DECRYPTED_SUCCESS
  | ENC_BLOCK_DECRYPTION_ERROR | ENC_BLOCK_SENT_BLOCK_RECEIPT
  | ENC_BLOCK_KEY_RECEIVED_BY_GATEWAY_FROM_NETWORK | ENC_BLOCK_KEY_SENT_BY_GATEWAY_TO_PEERS
  | BLOCK_CONVERSION_FAILED | BLOCK_COMPRESSED | BLOCK_TO_ENC_BLOCK_MATCH
  | BLOCK_RECOVERY_COMPLETED | BLOCK_DECOMPRESSED_IGNORE_SEEN | BLOCK_DECOMPRESSED_SUCCESS
  | BLOCK_DECOMPRESSED_WITH_UNKNOWN_TXS | BLOCK_RECOVERY_STARTED | BLOCK_RECOVERY_REPEATED

datatype TransactionStatEventType =
    TX_RECEIVED_BY_GATEWAY_FROM_PEER_IGNORE_SEEN | TX_RECEIVED_BY_GATEWAY_FROM_PEER
  | TX_SHORT_ID_STORED_BY_GATEWAY | TX_SHORT_ID_EMPTY_IN_MSG_FROM_RELAY
  | TX_SENT_FROM_GATEWAY_TO_BLOCKCHAIN_NODE
  | TX_UNKNOWN_SHORT_IDS_REQUESTED_BY_GATEWAY_FROM_RELAY

datatype GatewayTransactionStat =
    log_duplicate_transaction_from_relay
  | log_transaction_from_relay
  | log_redundant_transaction_content

datatype LogLevel = TRACE | INFO | WARNING | ERROR

text \<open>The bloXroute messages the service and the relay handler touch.\<close>

record BroadcastMessage =
  bcast_block_hash :: Sha256Hash
  bcast_is_encrypted :: bool
  bcast_blob :: bytes

record KeyMessage =
  key_block_hash :: Sha256Hash
  key_key :: bytes

record TxMessage =
  txm_short_id :: "nat option"
  txm_tx_hash :: Sha256Hash
  txm_network_num :: nat
  txm_tx_val :: bytes

datatype bx_message =
    BlockHoldingMessage Sha256Hash nat
  | BlockReceivedMessage Sha256Hash
  | GetTxsMessage "nat list"
  | Key KeyMessage

text \<open>
  Calls that leave the service (statistics, logging, \<open>node.broadcast\<close>, the neutrality
  service, bookkeeping calls on the transaction service and the node) are recorded, in
  call order, with the arguments the claims speak about.
\<close>

datatype effect =
    BlockStatEvent Sha256Hash BlockStatEventType
  | TxStatEvent Sha256Hash TransactionStatEventType
  | TxsByShortIdsEvent "nat list" TransactionStatEventType
  | GatewayTxStat GatewayTransactionStat
  | Log LogLevel string
  | Broadcast bx_message "connection option" bool "ConnectionType list"
  | PropagateBlockToNetwork bytes connection BlockInfo
  | TrackSeenShortIdsDelayed Sha256Hash "nat list"
  | TrackSeenShortIds Sha256Hash "nat list"
  | OnBlockCleanedUp Sha256Hash
  | TrackBlockFromBdnHandlingStarted Sha256Hash string
  | TrackBlockFromBdnHandlingEnded Sha256Hash
  | DumpShortIdMapping Sha256Hash "(nat \<times> Sha256Hash) list"
  | SendMsgToNode TxMessage

text \<open>
  \<open>BlockHold\<close>. \<open>held_connection\<close> is declared by the class and never written;
  \<open>queue_block_for_processing\<close> writes the attribute \<open>connection\<close> (\<open>hold_connection\<close>)
  that \<open>_holding_timeout\<close> reads.
\<close>

record BlockHold =
  hold_message_time :: real
  holding_connection :: connection
  block_message :: "BlockMessage option"
  alarm :: "nat option"
  held_connection :: "connection option"
  hold_connection :: "connection option"

definition new_BlockHold :: "real \<Rightarrow> connection \<Rightarrow> BlockHold" where
  "new_BlockHold hold_time conn =
     \<lparr>hold_message_time = hold_time, holding_connection = conn, block_message = None,
      alarm = None, held_connection = None, hold_connection = None\<rparr>"

text \<open>
  Modelled from the spec: the block recovery service is not among the sources. A recovery
  record is \<open>(block_hash, bx_block, unknown_sids, unknown_hashes, recovery_start_time)\<close>
  with the attempts counted per block hash, starting from 0.
\<close>

record BlockRecoveryInfo =
  rec_block_hash :: Sha256Hash
  rec_bx_block :: bytes
  unknown_short_ids :: "nat list"
  unknown_transaction_hashes :: "Sha256Hash list"
  recovery_start_time :: real

record BlockRecoveryService =
  blocks_awaiting_recovery :: "BlockRecoveryInfo list"
  recovery_attempts_by_block :: "Sha256Hash \<Rightarrow> nat"
  recovered_blocks :: "bytes list"

text \<open>
  The alarm queue belongs to the bxcommon dependency and is not among the sources.
  \<open>register_alarm\<close> adds one alarm and returns its identifier, \<open>unregister_alarm\<close> removes
  an alarm so that it never fires. A callback is the bound method with its arguments: the
  hold timeout and the recovery retry of the block processing service, and the sweep of
  its dictionary of holds. The hold passed to \<open>_holding_timeout\<close> is the object as
  \<open>queue_block_for_processing\<close> leaves it: no code writes to a hold whose \<open>alarm\<close> is set.
  An alarm registered through \<open>register_approx_alarm\<close> carries its slop.
\<close>

datatype alarm_callback =
    HoldingTimeout Sha256Hash BlockHold
  | TriggerRecoveryRetry BlockRecoveryInfo
  | HoldsCleanup

record Alarm =
  fire_time :: real
  slop :: "real option"
  callback :: alarm_callback

record AlarmQueue =
  alarms :: "(nat \<times> Alarm) list"
  next_alarm_id :: nat

definition register_alarm ::
  "real \<Rightarrow> real \<Rightarrow> alarm_callback \<Rightarrow> AlarmQueue \<Rightarrow> nat \<times> AlarmQueue" where
  "register_alarm now delay cb q =
     (next_alarm_id q,
      \<lparr>alarms = alarms q @ [(next_alarm_id q, \<lparr>fire_time = now + delay, slop = None, callback = cb\<rparr>)],
       next_alarm_id = Suc (next_alarm_id q)\<rparr>)"

definition unregister_alarm :: "nat \<Rightarrow> AlarmQueue \<Rightarrow> AlarmQueue" where
  "unregister_alarm alarm_id q = q\<lparr>alarms := filter (\<lambda>a. fst a \<noteq> alarm_id) (alarms q)\<rparr>"

text \<open>
  \<open>register_approx_alarm(fire_delay, slop, fn, *args)\<close> asks the queue for an alarm of
  \<open>fn\<close> about \<open>fire_delay\<close> from now. Whether the queue registers a new alarm for the
  request or lets an alarm that is already pending serve it is the policy of the library:
  it is a parameter of the node (field \<open>register_approx_alarm\<close>, taking the current time,
  the delay, the slop, the callback and the queue). \<open>batched_register_approx_alarm\<close> is
  the policy of bxcommon's queue, which batches by function: a request is dropped when an
  approximate alarm of the same function, whatever its arguments, is pending with a fire
  time within the slop of the requested one; otherwise a new alarm is registered.
\<close>

type_synonym approx_alarm_policy =
  "real \<Rightarrow> real \<Rightarrow> real \<Rightarrow> alarm_callback \<Rightarrow> AlarmQueue \<Rightarrow> AlarmQueue"

fun same_function :: "alarm_callback \<Rightarrow> alarm_callback \<Rightarrow> bool" where
  "same_function (HoldingTimeout h hold) (HoldingTimeout h' hold') = True"
| "same_function (TriggerRecoveryRetry r) (TriggerRecoveryRetry r') = True"
| "same_function HoldsCleanup HoldsCleanup = True"
| "same_function cb cb' = False"

definition batched_register_approx_alarm :: approx_alarm_policy where
  "batched_register_approx_alarm now fire_delay slop_s cb q =
     (if list_ex (\<lambda>a. \<not> Option.is_none (slop (snd a)) \<and> same_function (callback (snd a)) cb
                       \<and> now + fire_delay - slop_s \<le> fire_time (snd a)
                       \<and> fire_time (snd a) \<le> now + fire_delay + slop_s) (alarms q)
      then q
      else \<lparr>alarms = alarms q @
              [(next_alarm_id q, \<lparr>fire_time = now + fire_delay, slop = Some slop_s, callback = cb\<rparr>)],
            next_alarm_id = Suc (next_alarm_id q)\<rparr>)"

text \<open>
  Modelled from the spec: an in-progress block holds an optional ciphertext and an
  optional key; once both are present and decrypt, the pair yields the plaintext bx-block
  and the entry is removed. A failed decryption discards nothing but the attempt.
\<close>

record InProgressBlock =
  ciphertext :: "bytes option"
  enc_key :: "bytes option"

type_synonym InProgressBlocks = "Sha256Hash \<Rightarrow> InProgressBlock option"

definition has_encryption_key_for_hash :: "InProgressBlocks \<Rightarrow> Sha256Hash \<Rightarrow> bool" where
  "has_encryption_key_for_hash ipb h = (case ipb h of None \<Rightarrow> False | Some e \<Rightarrow> enc_key e \<noteq> None)"

definition has_ciphertext_for_hash :: "InProgressBlocks \<Rightarrow> Sha256Hash \<Rightarrow> bool" where
  "has_ciphertext_for_hash ipb h = (case ipb h of None \<Rightarrow> False | Some e \<Rightarrow> ciphertext e \<noteq> None)"

definition add_ciphertext :: "Sha256Hash \<Rightarrow> bytes \<Rightarrow> InProgressBlocks \<Rightarrow> InProgressBlocks" where
  "add_ciphertext h c ipb =
     ipb(h \<mapsto> (case ipb h of None \<Rightarrow> \<lparr>ciphertext = Some c, enc_key = None\<rparr>
                | Some e \<Rightarrow> e\<lparr>ciphertext := Some c\<rparr>))"

definition add_key :: "Sha256Hash \<Rightarrow> bytes \<Rightarrow> InProgressBlocks \<Rightarrow> InProgressBlocks" where
  "add_key h k ipb =
     ipb(h \<mapsto> (case ipb h of None \<Rightarrow> \<lparr>ciphertext = None, enc_key = Some k\<rparr>
                | Some e \<Rightarrow> e\<lparr>enc_key := Some k\<rparr>))"

definition decrypt_ciphertext ::
  "(bytes \<Rightarrow> bytes \<Rightarrow> bytes option) \<Rightarrow> Sha256Hash \<Rightarrow> bytes \<Rightarrow> InProgressBlocks
     \<Rightarrow> bytes option \<times> InProgressBlocks" where
  "decrypt_ciphertext dec h c ipb =
     (case ipb h of
        None \<Rightarrow> (None, ipb)
      | Some e \<Rightarrow>
          (case enc_key e of
             None \<Rightarrow> (None, ipb)
           | Some k \<Rightarrow> (case dec k c of None \<Rightarrow> (None, ipb) | Some p \<Rightarrow> (Some p, ipb(h := None)))))"

definition decrypt_and_get_payload ::
  "(bytes \<Rightarrow> bytes \<Rightarrow> bytes option) \<Rightarrow> Sha256Hash \<Rightarrow> bytes \<Rightarrow> InProgressBlocks
     \<Rightarrow> bytes option \<times> InProgressBlocks" where
  "decrypt_and_get_payload dec h k ipb =
     (case ipb h of
        None \<Rightarrow> (None, ipb)
      | Some e \<Rightarrow>
          (case ciphertext e of
             None \<Rightarrow> (None, ipb)
           | Some c \<Rightarrow> (case dec k c of None \<Rightarrow> (None, ipb) | Some p \<Rightarrow> (Some p, ipb(h := None)))))"

text \<open>
  Modelled from the spec: the block queuing service is not among the sources. It keeps the
  blocks for the local node in arrival order; \<open>push\<close> enqueues a block or a
  \<open>waiting_for_recovery\<close> placeholder, \<open>update_recovered_block\<close> attaches a message to a
  placeholder, \<open>remove\<close> drops a hash unconditionally. Delivery to the node is timed and is
  left out.
\<close>

record QueuedBlock =
  q_block_hash :: Sha256Hash
  q_block_msg :: "BlockMessage option"
  q_waiting_for_recovery :: bool

type_synonym BlockQueuingService = "QueuedBlock list"

definition in_queue :: "Sha256Hash \<Rightarrow> BlockQueuingService \<Rightarrow> bool" where
  "in_queue h q = (h \<in> set (map q_block_hash q))"

definition push :: "Sha256Hash \<Rightarrow> BlockMessage option \<Rightarrow> bool \<Rightarrow> BlockQueuingService \<Rightarrow> BlockQueuingService" where
  "push h m waiting q = q @ [\<lparr>q_block_hash = h, q_block_msg = m, q_waiting_for_recovery = waiting\<rparr>]"

definition update_recovered_block :: "Sha256Hash \<Rightarrow> BlockMessage \<Rightarrow> BlockQueuingService \<Rightarrow> BlockQueuingService" where
  "update_recovered_block h m q =
     map (\<lambda>e. if q_block_hash e = h then e\<lparr>q_block_msg := Some m, q_waiting_for_recovery := False\<rparr> else e) q"


text \<open>Operations of the recovery service, from the spec's contract.\<close>

definition add_block ::
  "bytes \<Rightarrow> Sha256Hash \<Rightarrow> nat list \<Rightarrow> Sha256Hash list \<Rightarrow> real \<Rightarrow> BlockRecoveryService \<Rightarrow> BlockRecoveryService" where
  "add_block bx_block h unknown_sids unknown_hashes now rs =
     rs\<lparr>blocks_awaiting_recovery :=
          filter (\<lambda>r. rec_block_hash r \<noteq> h) (blocks_awaiting_recovery rs) @
          [\<lparr>rec_block_hash = h, rec_bx_block = bx_block, unknown_short_ids = unknown_sids,
            unknown_transaction_hashes = unknown_hashes, recovery_start_time = now\<rparr>]\<rparr>"

definition cancel_recovery_for_block :: "Sha256Hash \<Rightarrow> BlockRecoveryService \<Rightarrow> BlockRecoveryService" where
  "cancel_recovery_for_block h rs =
     rs\<lparr>blocks_awaiting_recovery := filter (\<lambda>r. rec_block_hash r \<noteq> h) (blocks_awaiting_recovery rs),
        recovery_attempts_by_block := (recovery_attempts_by_block rs)(h := 0)\<rparr>"

definition recovery_complete :: "BlockRecoveryInfo \<Rightarrow> bool" where
  "recovery_complete r = (unknown_short_ids r = [] \<and> unknown_transaction_hashes r = [])"

definition check_missing_sid :: "nat \<Rightarrow> BlockRecoveryService \<Rightarrow> bool \<times> BlockRecoveryService" where
  "check_missing_sid sid rs =
     (let hit = filter (\<lambda>r. sid \<in> set (unknown_short_ids r)) (blocks_awaiting_recovery rs);
          upd = (\<lambda>r. r\<lparr>unknown_short_ids := removeAll sid (unknown_short_ids r)\<rparr>)
      in (hit \<noteq> [],
          rs\<lparr>blocks_awaiting_recovery := map upd (blocks_awaiting_recovery rs),
             recovered_blocks := recovered_blocks rs @
               map rec_bx_block (filter recovery_complete (map upd hit))\<rparr>))"

definition check_missing_tx_hash :: "Sha256Hash \<Rightarrow> BlockRecoveryService \<Rightarrow> bool \<times> BlockRecoveryService" where
  "check_missing_tx_hash h rs =
     (let hit = filter (\<lambda>r. h \<in> set (unknown_transaction_hashes r)) (blocks_awaiting_recovery rs);
          upd = (\<lambda>r. r\<lparr>unknown_transaction_hashes := removeAll h (unknown_transaction_hashes r)\<rparr>)
      in (hit \<noteq> [],
          rs\<lparr>blocks_awaiting_recovery := map upd (blocks_awaiting_recovery rs),
             recovered_blocks := recovered_blocks rs @
               map rec_bx_block (filter recovery_complete (map upd hit))\<rparr>))"

definition clean_up_recovered_blocks :: "BlockRecoveryService \<Rightarrow> BlockRecoveryService" where
  "clean_up_recovered_blocks rs = rs\<lparr>recovered_blocks := []\<rparr>"

text \<open>
  The message converter of the node (\<open>AbstractMessageConverter\<close>): compression and
  decompression either return or raise.
\<close>

record MessageConverter =
  conv_block_to_bx_block :: "BlockMessage \<Rightarrow> TransactionService \<Rightarrow> error + bytes \<times> BlockInfo"
  conv_bx_block_to_block ::
    "bytes \<Rightarrow> TransactionService \<Rightarrow> error + BlockMessage option \<times> BlockInfo \<times> nat list \<times> Sha256Hash list"

subsection \<open>The gateway node as the service sees it\<close>

text \<open>
  \<open>clock\<close> is the value \<open>time.time()\<close> returns; \<open>holds\<close> is the \<open>contents\<close> of the expiring
  dictionary of holds and \<open>holds_index\<close> its insertion-time index, \<open>blocks_seen\<close> the
  \<open>contents\<close> of the expiring set. \<open>effects\<close> is the record of outward calls.
\<close>

record node =
  opts_blockchain_block_hold_timeout_s :: real
  opts_blockchain_block_recovery_timeout_s :: real
  opts_dump_short_id_mapping_compression :: bool
  network_num :: nat
  clock :: real
  connection_pool :: "connection list"
  node_conn :: "connection option"
  remote_node_conn :: "connection option"
  blocks_seen :: "Sha256Hash set"
  holds :: "Sha256Hash \<Rightarrow> BlockHold option"
  holds_index :: "(Sha256Hash \<times> real) list"
  alarm_queue :: AlarmQueue
  register_approx_alarm :: approx_alarm_policy
  in_progress_blocks :: InProgressBlocks
  tx_service :: TransactionService
  block_recovery_service :: BlockRecoveryService
  block_queuing_service :: BlockQueuingService
  message_converter :: MessageConverter
  double_sha256 :: "bytes \<Rightarrow> Sha256Hash"
  symmetric_decrypt :: "bytes \<Rightarrow> bytes \<Rightarrow> bytes option"
  effects :: "effect list"

definition add_effect :: "effect \<Rightarrow> node \<Rightarrow> node" where
  "add_effect e n = n\<lparr>effects := effects n @ [e]\<rparr>"

text \<open>
  \<open>node.broadcast\<close> (bxcommon) sends to every pooled connection of one of the given types
  other than the broadcasting connection, and returns the connections it sent to.
\<close>

definition broadcast ::
  "bx_message \<Rightarrow> connection option \<Rightarrow> bool \<Rightarrow> ConnectionType list \<Rightarrow> node \<Rightarrow> connection list \<times> node" where
  "broadcast msg broadcasting_conn prepend_to_queue connection_types n =
     (filter (\<lambda>c. Some c \<noteq> broadcasting_conn \<and> (\<exists>t \<in> set connection_types. t \<in> set (CONNECTION_TYPE c)))
        (connection_pool n),
      add_effect (Broadcast msg broadcasting_conn prepend_to_queue connection_types) n)"

subsection \<open>Holds\<close>

text \<open>
  Modelled from the spec: the expiring dictionary (\<open>ExpiringDict\<close> of bxcommon) that keeps
  the holds is not among the sources. It is a keyed set with an insertion-time index and a
  sweep alarm. \<open>add\<close> stores the value under the key, records the insertion time of the
  key and asks the alarm queue of the node for a sweep, as an approximate alarm after
  twice the timeout with the timeout as slop. The sweep (\<open>cleanup\<close>) removes the keys
  that were inserted more than the timeout ago; an alarm recorded on a removed hold is
  not touched. The service reads and deletes from \<open>contents\<close> directly.
\<close>

definition holds_add :: "Sha256Hash \<Rightarrow> BlockHold \<Rightarrow> node \<Rightarrow> node" where
  "holds_add key hold n =
     n\<lparr>holds := (holds n)(key \<mapsto> hold),
       holds_index := filter (\<lambda>e. fst e \<noteq> key) (holds_index n) @ [(key, clock n)],
       alarm_queue :=
         register_approx_alarm n (clock n) (opts_blockchain_block_hold_timeout_s n * 2)
           (opts_blockchain_block_hold_timeout_s n) HoldsCleanup (alarm_queue n)\<rparr>"

definition holds_expired :: "node \<Rightarrow> Sha256Hash \<times> real \<Rightarrow> bool" where
  "holds_expired n e = (clock n - snd e > opts_blockchain_block_hold_timeout_s n)"

definition holds_cleanup :: "node \<Rightarrow> node" where
  "holds_cleanup n =
     n\<lparr>holds := (\<lambda>key. if list_ex (\<lambda>e. fst e = key \<and> holds_expired n e) (holds_index n)
                       then None else holds n key),
       holds_index := filter (\<lambda>e. \<not> holds_expired n e) (holds_index n)\<rparr>"

definition place_hold :: "Sha256Hash \<Rightarrow> connection \<Rightarrow> node \<Rightarrow> node" where
  "place_hold block_hash conn n =
     (let n1 = add_effect (BlockStatEvent block_hash BLOCK_HOLD_REQUESTED) n in
      if block_hash \<in> blocks_seen n1 then n1
      else if holds n1 block_hash = None then
        (let n2 = holds_add block_hash (new_BlockHold (clock n1) conn) n1;
             sent = broadcast (BlockHoldingMessage block_hash (network_num n2)) (Some conn) False
                      [RELAY_BLOCK, GATEWAY] n2
         in if length (fst sent) > 0
            then add_effect (BlockStatEvent block_hash BLOCK_HOLD_SENT_BY_GATEWAY_TO_PEERS) (snd sent)
            else snd sent)
      else n1)"

definition process_and_broadcast_compressed_block ::
  "bytes \<Rightarrow> connection \<Rightarrow> BlockInfo \<Rightarrow> Sha256Hash \<Rightarrow> node \<Rightarrow> node" where
  "process_and_broadcast_compressed_block bx_block conn block_info block_hash n =
     add_effect (TrackSeenShortIdsDelayed block_hash (info_short_ids block_info))
       (add_effect (PropagateBlockToNetwork bx_block conn block_info) n)"

definition dump_short_id_mapping :: "Sha256Hash \<Rightarrow> BlockInfo \<Rightarrow> node \<Rightarrow> error + node" where
  "dump_short_id_mapping block_hash block_info n =
     (if \<exists>sid \<in> set (info_short_ids block_info). fst (get_transaction (tx_service n) sid) = None
      then Inl (PyError AttributeError)
      else Inr (add_effect
             (DumpShortIdMapping block_hash
                (map (\<lambda>sid. (sid, the (fst (get_transaction (tx_service n) sid)))) (info_short_ids block_info)))
             n))"

definition process_and_broadcast_block :: "BlockMessage \<Rightarrow> connection \<Rightarrow> node \<Rightarrow> error + node" where
  "process_and_broadcast_block block_msg conn n =
     (let block_hash = blk_hash block_msg in
      case conv_block_to_bx_block (message_converter n) block_msg (tx_service n) of
        Inl e \<Rightarrow>
          (case e of
             MessageConversionError h t \<Rightarrow>
               Inr (add_effect (Log ERROR ''Failed to compress block'')
                     (add_effect (BlockStatEvent h BLOCK_CONVERSION_FAILED) n))
           | PyError x \<Rightarrow> Inl e)
      | Inr compressed \<Rightarrow>
          (let bx_block = fst compressed; block_info = snd compressed;
               n1 = add_effect (BlockStatEvent block_hash BLOCK_COMPRESSED) n
           in if opts_dump_short_id_mapping_compression n1 then
                (case dump_short_id_mapping block_hash block_info n1 of
                   Inl e \<Rightarrow> Inl e
                 | Inr n2 \<Rightarrow> Inr (process_and_broadcast_compressed_block bx_block conn block_info block_hash n2))
              else Inr (process_and_broadcast_compressed_block bx_block conn block_info block_hash n1)))"

definition queue_block_for_processing :: "BlockMessage \<Rightarrow> connection \<Rightarrow> node \<Rightarrow> error + node" where
  "queue_block_for_processing block_msg conn n =
     (let block_hash = blk_hash block_msg in
      case holds n block_hash of
        Some hold \<Rightarrow>
          (let n1 = add_effect (BlockStatEvent block_hash BLOCK_HOLD_HELD_BLOCK) n in
           if alarm hold = None then
             (let hold' = hold\<lparr>alarm := Some (next_alarm_id (alarm_queue n1)),
                              block_message := Some block_msg, hold_connection := Some conn\<rparr>;
                  registered = register_alarm (clock n1) (opts_blockchain_block_hold_timeout_s n1)
                                 (HoldingTimeout block_hash hold') (alarm_queue n1)
              in Inr (n1\<lparr>alarm_queue := snd registered, holds := (holds n1)(block_hash \<mapsto> hold')\<rparr>))
           else Inr n1)
      | None \<Rightarrow>
          (let sent = broadcast (BlockHoldingMessage block_hash (network_num n)) (Some conn) True
                        [RELAY_BLOCK, GATEWAY] n;
               n1 = (if length (fst sent) > 0
                     then add_effect (BlockStatEvent block_hash BLOCK_HOLD_SENT_BY_GATEWAY_TO_PEERS) (snd sent)
                     else snd sent)
           in process_and_broadcast_block block_msg conn n1))"

definition cancel_hold_timeout :: "Sha256Hash \<Rightarrow> connection \<Rightarrow> node \<Rightarrow> node" where
  "cancel_hold_timeout block_hash conn n =
     (case holds n block_hash of
        Some hold \<Rightarrow>
          (let n1 = add_effect (BlockStatEvent block_hash BLOCK_HOLD_LIFTED) n;
               n2 = (case alarm hold of
                       Some a \<Rightarrow> n1\<lparr>alarm_queue := unregister_alarm a (alarm_queue n1)\<rparr>
                     | None \<Rightarrow> n1)
           in n2\<lparr>holds := (holds n2)(block_hash := None)\<rparr>)
      | None \<Rightarrow> n)"

definition holding_timeout :: "Sha256Hash \<Rightarrow> BlockHold \<Rightarrow> node \<Rightarrow> error + node" where
  "holding_timeout block_hash hold n =
     (case hold_connection hold of
        None \<Rightarrow> Inl (PyError AttributeError)
      | Some conn \<Rightarrow>
          (let n1 = add_effect (BlockStatEvent block_hash BLOCK_HOLD_TIMED_OUT) n in
           case block_message hold of
             None \<Rightarrow> Inl (PyError AttributeError)
           | Some block_msg \<Rightarrow> process_and_broadcast_block block_msg conn n1))"

subsection \<open>Decrypted blocks and recovery\<close>

definition start_transaction_recovery ::
  "nat list \<Rightarrow> Sha256Hash list \<Rightarrow> Sha256Hash \<Rightarrow> connection option \<Rightarrow> node \<Rightarrow> node" where
  "start_transaction_recovery unknown_sids unknown_hashes block_hash conn n =
     (let all_unknown_sids = unknown_sids @ map (get_short_id (tx_service n)) unknown_hashes;
          sent = broadcast (GetTxsMessage all_unknown_sids) None False [RELAY_TRANSACTION] n
      in case conn of
           Some c \<Rightarrow>
             add_effect (BlockStatEvent block_hash BLOCK_RECOVERY_STARTED)
               (add_effect (TxsByShortIdsEvent all_unknown_sids
                              TX_UNKNOWN_SHORT_IDS_REQUESTED_BY_GATEWAY_FROM_RELAY) (snd sent))
         | None \<Rightarrow> add_effect (BlockStatEvent block_hash BLOCK_RECOVERY_REPEATED) (snd sent))"

text \<open>
  The part of \<open>_handle_decrypted_block\<close> after the decompression has returned
  \<open>(block_message, block_info, unknown_sids, unknown_hashes)\<close>.
\<close>

definition handle_decompressed_block ::
  "BlockMessage option \<times> BlockInfo \<times> nat list \<times> Sha256Hash list \<Rightarrow> bytes \<Rightarrow> connection
     \<Rightarrow> Sha256Hash option \<Rightarrow> bool \<Rightarrow> node \<Rightarrow> node" where
  "handle_decompressed_block decompressed bx_block conn encrypted_block_hash recovered n =
     (let block_msg = fst decompressed; block_info = fst (snd decompressed);
          unknown_sids = fst (snd (snd decompressed)); unknown_hashes = snd (snd (snd decompressed));
          block_hash = info_block_hash block_info; all_sids = info_short_ids block_info;
          n1 = (if encrypted_block_hash \<noteq> None
                then add_effect (BlockStatEvent block_hash BLOCK_TO_ENC_BLOCK_MATCH) n else n);
          n2 = cancel_hold_timeout block_hash conn n1;
          n3 = (if recovered then add_effect (BlockStatEvent block_hash BLOCK_RECOVERY_COMPLETED) n2 else n2)
      in if block_hash \<in> blocks_seen n3 then
           add_effect (TrackSeenShortIds block_hash all_sids)
             (add_effect (TrackBlockFromBdnHandlingEnded block_hash)
               (add_effect (BlockStatEvent block_hash BLOCK_DECOMPRESSED_IGNORE_SEEN) n3))
         else
           (let n4 = add_effect (Log INFO (if recovered then ''Successfully recovered block''
                                           else ''Received block from the BDN'')) n3
            in case block_msg of
                 Some m \<Rightarrow>
                   (let n5 = add_effect (BlockStatEvent block_hash BLOCK_DECOMPRESSED_SUCCESS) n4;
                        n6 = n5\<lparr>block_queuing_service :=
                               (if recovered \<or> in_queue block_hash (block_queuing_service n5)
                                then update_recovered_block block_hash m (block_queuing_service n5)
                                else push block_hash (Some m) False (block_queuing_service n5))\<rparr>;
                        n7 = n6\<lparr>block_recovery_service :=
                                  cancel_recovery_for_block block_hash (block_recovery_service n6),
                                blocks_seen := insert block_hash (blocks_seen n6)\<rparr>
                    in add_effect (TrackSeenShortIds block_hash all_sids) n7)
               | None \<Rightarrow>
                   (if in_queue block_hash (block_queuing_service n4) \<and> \<not> recovered then
                      add_effect (Log TRACE ''Handling already queued block again. Ignoring.'') n4
                    else
                      (let n5 = n4\<lparr>block_recovery_service :=
                                  add_block bx_block block_hash unknown_sids unknown_hashes (clock n4)
                                    (block_recovery_service n4)\<rparr>;
                           n6 = add_effect (BlockStatEvent block_hash BLOCK_DECOMPRESSED_WITH_UNKNOWN_TXS) n5;
                           n7 = add_effect (Log WARNING ''Block requires short id recovery. Querying BDN...'') n6;
                           n8 = start_transaction_recovery unknown_sids unknown_hashes block_hash (Some conn) n7
                       in if recovered then
                            add_effect (Log ERROR ''Unexpectedly, could not decompress block after block was recovered.'') n8
                          else n8\<lparr>block_queuing_service :=
                                    push block_hash None True (block_queuing_service n8)\<rparr>))))"

definition handle_decrypted_block ::
  "bytes \<Rightarrow> connection \<Rightarrow> Sha256Hash option \<Rightarrow> bool \<Rightarrow> node \<Rightarrow> error + node" where
  "handle_decrypted_block bx_block conn encrypted_block_hash recovered n =
     (if node_conn n \<noteq> None \<or> remote_node_conn n \<noteq> None then
        (case conv_bx_block_to_block (message_converter n) bx_block (tx_service n) of
           Inl e \<Rightarrow>
             (case e of
                MessageConversionError h t \<Rightarrow>
                  Inr (add_effect (Log WARNING ''Failed to decompress block'')
                        (add_effect (OnBlockCleanedUp h)
                          (add_effect (BlockStatEvent h BLOCK_CONVERSION_FAILED) n)))
              | PyError x \<Rightarrow> Inl e)
         | Inr decompressed \<Rightarrow>
             Inr (handle_decompressed_block decompressed bx_block conn encrypted_block_hash recovered n))
      else
        Inr (add_effect
               (Log WARNING ''Discarding block. No connection currently exists to the blockchain node.'') n))"

fun handle_recovered_blocks :: "bytes list \<Rightarrow> connection \<Rightarrow> node \<Rightarrow> error + node" where
  "handle_recovered_blocks [] conn n = Inr n"
| "handle_recovered_blocks (msg # msgs) conn n =
     (case handle_decrypted_block msg conn None True n of
        Inl e \<Rightarrow> Inl e
      | Inr n1 \<Rightarrow> handle_recovered_blocks msgs conn n1)"

definition retry_broadcast_recovered_blocks :: "connection \<Rightarrow> node \<Rightarrow> error + node" where
  "retry_broadcast_recovered_blocks conn n =
     (if recovered_blocks (block_recovery_service n) \<noteq> [] then
        (case handle_recovered_blocks (recovered_blocks (block_recovery_service n)) conn n of
           Inl e \<Rightarrow> Inl e
         | Inr n1 \<Rightarrow>
             Inr (n1\<lparr>block_recovery_service := clean_up_recovered_blocks (block_recovery_service n1)\<rparr>))
      else Inr n)"




text \<open>
  \<open>_trigger_recovery_retry\<close> runs on the recovery record as it is when the alarm fires:
  the record is shared with the recovery service, which removes short ids and hashes from
  it as transactions arrive.
\<close>

definition trigger_recovery_retry :: "BlockRecoveryInfo \<Rightarrow> node \<Rightarrow> node" where
  "trigger_recovery_retry block_awaiting_recovery n =
     (let block_hash = rec_block_hash block_awaiting_recovery;
          rs = block_recovery_service n;
          n1 = n\<lparr>block_recovery_service :=
                  rs\<lparr>recovery_attempts_by_block :=
                       (recovery_attempts_by_block rs)(block_hash := recovery_attempts_by_block rs block_hash + 1)\<rparr>\<rparr>
      in start_transaction_recovery (unknown_short_ids block_awaiting_recovery)
           (unknown_transaction_hashes block_awaiting_recovery) block_hash None n1)"

subsection \<open>Encrypted blocks and keys from the BDN\<close>

text \<open>
  In \<open>process_block_broadcast\<close> the receipt is broadcast with the service itself as
  \<open>broadcasting_conn\<close>: it excludes no connection, which is \<open>None\<close> here.
\<close>

definition process_block_broadcast :: "BroadcastMessage \<Rightarrow> connection \<Rightarrow> node \<Rightarrow> error + node" where
  "process_block_broadcast msg conn n =
     (let block_hash = bcast_block_hash msg;
          is_encrypted = bcast_is_encrypted msg;
          n1 = add_effect (BlockStatEvent block_hash ENC_BLOCK_RECEIVED_BY_GATEWAY_FROM_NETWORK) n;
          n2 = add_effect (TrackBlockFromBdnHandlingStarted block_hash (peer_desc conn)) n1
      in if \<not> is_encrypted then handle_decrypted_block (bcast_blob msg) conn None False n2
         else
           (let cipherblob = bcast_blob msg;
                expected_hash = double_sha256 n2 cipherblob
            in if block_hash \<noteq> expected_hash then
                 Inr (add_effect
                        (Log WARNING ''Received a block with inconsistent hashes from the BDN. Dropping.'') n2)
               else if has_encryption_key_for_hash (in_progress_blocks n2) block_hash then
                 (let n3 = add_effect (Log TRACE ''Already had key for received block. Sending block to node.'') n2;
                      decrypted = decrypt_ciphertext (symmetric_decrypt n3) block_hash cipherblob
                                    (in_progress_blocks n3);
                      n4 = n3\<lparr>in_progress_blocks := snd decrypted\<rparr>
                  in case fst decrypted of
                       Some block \<Rightarrow>
                         handle_decrypted_block block conn (Some block_hash) False
                           (add_effect (BlockStatEvent block_hash ENC_BLOCK_DECRYPTED_SUCCESS) n4)
                     | None \<Rightarrow> Inr (add_effect (BlockStatEvent block_hash ENC_BLOCK_DECRYPTION_ERROR) n4))
               else
                 (let n3 = add_effect (Log TRACE ''Received encrypted block. Storing.'') n2;
                      n4 = n3\<lparr>in_progress_blocks := add_ciphertext block_hash cipherblob (in_progress_blocks n3)\<rparr>;
                      sent = broadcast (BlockReceivedMessage block_hash) None False [GATEWAY] n4
                  in Inr (add_effect (BlockStatEvent block_hash ENC_BLOCK_SENT_BLOCK_RECEIPT) (snd sent)))))"

definition process_block_key :: "KeyMessage \<Rightarrow> connection \<Rightarrow> node \<Rightarrow> error + node" where
  "process_block_key msg conn n =
     (let key = key_key msg;
          block_hash = key_block_hash msg;
          n1 = add_effect (BlockStatEvent block_hash ENC_BLOCK_KEY_RECEIVED_BY_GATEWAY_FROM_NETWORK) n
      in if has_encryption_key_for_hash (in_progress_blocks n1) block_hash then Inr n1
         else
           (let handled =
                  (if has_ciphertext_for_hash (in_progress_blocks n1) block_hash then
                     (let n2 = add_effect (Log TRACE ''Cipher text found. Decrypting and sending to node.'') n1;
                          decrypted = decrypt_and_get_payload (symmetric_decrypt n2) block_hash key
                                        (in_progress_blocks n2);
                          n3 = n2\<lparr>in_progress_blocks := snd decrypted\<rparr>
                      in case fst decrypted of
                           Some block \<Rightarrow>
                             handle_decrypted_block block conn (Some block_hash) False
                               (add_effect (BlockStatEvent block_hash ENC_BLOCK_DECRYPTED_SUCCESS) n3)
                         | None \<Rightarrow> Inr (add_effect (BlockStatEvent block_hash ENC_BLOCK_DECRYPTION_ERROR) n3))
                   else
                     Inr ((add_effect (Log TRACE ''No cipher text found on key message. Storing.'') n1)
                            \<lparr>in_progress_blocks := add_key block_hash key (in_progress_blocks n1)\<rparr>))
            in case handled of
                 Inl e \<Rightarrow> Inl e
               | Inr n4 \<Rightarrow>
                   (let sent = broadcast (Key msg) (Some conn) False [GATEWAY] n4
                    in if length (fst sent) > 0
                       then Inr (add_effect (BlockStatEvent block_hash ENC_BLOCK_KEY_SENT_BY_GATEWAY_TO_PEERS) (snd sent))
                       else Inr (snd sent))))"

section \<open>Relay connection: transactions from the BDN\<close>

text \<open>
  \<open>AbstractRelayConnection.msg_tx\<close>, on the connection \<open>conn\<close>. \<open>not short_id\<close> holds for
  \<open>None\<close> and for 0; \<open>TxMessage.EMPTY_TX_VAL\<close> is the empty contents. The native message
  sent to the blockchain node is the converter's image of the relay message.
\<close>

definition EMPTY_TX_VAL :: bytes where
  "EMPTY_TX_VAL = []"

definition no_short_id :: "nat option \<Rightarrow> bool" where
  "no_short_id short_id = (short_id = None \<or> short_id = Some 0)"

definition msg_tx :: "TxMessage \<Rightarrow> connection \<Rightarrow> node \<Rightarrow> error + node" where
  "msg_tx msg conn n =
     (if RELAY_TRANSACTION \<notin> set (CONNECTION_TYPE conn) then
        Inr (add_effect (Log ERROR ''Received unexpected tx message on non-tx relay connection'') n)
      else
        (let short_id = txm_short_id msg; tx_hash = txm_tx_hash msg; tx_val = txm_tx_val msg in
         if no_short_id short_id \<and> has_transaction_short_id (tx_service n) tx_hash
              \<and> has_transaction_contents (tx_service n) tx_hash then
           Inr (add_effect (Log TRACE ''Transaction has already been seen'')
                 (add_effect (TxStatEvent tx_hash TX_RECEIVED_BY_GATEWAY_FROM_PEER_IGNORE_SEEN)
                   (add_effect (GatewayTxStat log_duplicate_transaction_from_relay) n)))
         else
           (let n1 = add_effect (GatewayTxStat log_transaction_from_relay)
                       (add_effect (TxStatEvent tx_hash TX_RECEIVED_BY_GATEWAY_FROM_PEER) n);
                assigned =
                  (if \<not> no_short_id short_id then
                     (let n2 = n1\<lparr>tx_service := assign_short_id tx_hash (the short_id) (tx_service n1)\<rparr>;
                          was_missing = check_missing_sid (the short_id) (block_recovery_service n2);
                          n3 = n2\<lparr>block_recovery_service := snd was_missing\<rparr>
                      in (fst was_missing, add_effect (TxStatEvent tx_hash TX_SHORT_ID_STORED_BY_GATEWAY) n3))
                   else (False, add_effect (TxStatEvent tx_hash TX_SHORT_ID_EMPTY_IN_MSG_FROM_RELAY) n1));
                attempt_recovery = fst assigned; n4 = snd assigned
            in if has_transaction_contents (tx_service n4) tx_hash then
                 (let n5 = add_effect (Log TRACE ''Transaction has been seen, but short id newly assigned.'') n4;
                      n6 = (if tx_val \<noteq> EMPTY_TX_VAL then
                              add_effect (GatewayTxStat log_redundant_transaction_content)
                                (add_effect (TxStatEvent tx_hash TX_RECEIVED_BY_GATEWAY_FROM_PEER_IGNORE_SEEN) n5)
                            else n5)
                  in if attempt_recovery then retry_broadcast_recovered_blocks conn n6 else Inr n6)
               else
                 (let stored =
                        (if tx_val \<noteq> EMPTY_TX_VAL then
                           (let n5 = add_effect (Log TRACE ''Adding hash value to tx service and forwarding it to node'') n4;
                                n6 = n5\<lparr>tx_service := set_transaction_contents tx_hash tx_val (tx_service n5)\<rparr>;
                                was_missing = check_missing_tx_hash tx_hash (block_recovery_service n6);
                                n7 = n6\<lparr>block_recovery_service := snd was_missing\<rparr>;
                                n8 = (if node_conn n7 \<noteq> None then add_effect (SendMsgToNode msg) n7 else n7)
                            in (attempt_recovery \<or> fst was_missing,
                                add_effect (TxStatEvent tx_hash TX_SENT_FROM_GATEWAY_TO_BLOCKCHAIN_NODE) n8))
                         else (attempt_recovery, n4))
                  in if fst stored then retry_broadcast_recovered_blocks conn (snd stored)
                     else Inr (snd stored)))))"

section \<open>Bitcoin message converter\<close>

text \<open>
  \<open>btc_normal_message_converter.py\<close> calls helpers whose modules are not among the sources:
  the constants of \<open>btc_constants\<close>, \<open>btc_messages_util\<close> (\<open>btc_varint_to_int\<close>,
  \<open>get_next_tx_size\<close>, \<open>get_txid\<close>), \<open>crypto.bitcoin_hash\<close>, the short-id serializer of
  bxcommon, and the accessors of \<open>BlockBtcMessage\<close> (\<open>header()\<close>, \<open>txns()\<close>,
  \<open>txn_count()\<close>, \<open>block_hash()\<close>, as functions of the message buffer). They are
  parameters of the converter. The readers and the serializer work with \<open>struct\<close> on the
  buffer and may raise.
\<close>

record btc_externals =
  BTC_HDR_COMMON_OFF :: nat
  BTC_BLOCK_HDR_SIZE :: nat
  BTC_SHORT_ID_INDICATOR :: byte
  btc_varint_to_int :: "bytes \<Rightarrow> nat \<Rightarrow> error + nat \<times> nat"
  get_next_tx_size :: "bytes \<Rightarrow> nat \<Rightarrow> error + nat"
  get_txid :: "bytes \<Rightarrow> Sha256Hash"
  bitcoin_hash :: "bytes \<Rightarrow> Sha256Hash"
  serialize_short_ids_into_bytes :: "nat list \<Rightarrow> error + bytes"
  deserialize_short_ids_from_buffer :: "bytes \<Rightarrow> nat \<Rightarrow> error + nat list \<times> nat"
  msg_header :: "bytes \<Rightarrow> bytes"
  msg_txns :: "bytes \<Rightarrow> bytes list"
  msg_txn_count :: "bytes \<Rightarrow> nat"
  msg_block_hash :: "bytes \<Rightarrow> Sha256Hash"

text \<open>
  Modelled from the spec: the short-id indicator is one byte; a bx-block starts with the
  offset of its short-ids section as 8 bytes, little endian (\<open>struct.pack("<Q", size)\<close>,
  which raises beyond 64 bits; \<open>get_bx_block_offsets\<close> reads it back and places the block
  after it).
\<close>

definition BTC_SHORT_ID_INDICATOR_LENGTH :: nat where
  "BTC_SHORT_ID_INDICATOR_LENGTH = 1"

definition BTC_SHORT_ID_INDICATOR_AS_BYTEARRAY :: "btc_externals \<Rightarrow> bytes" where
  "BTC_SHORT_ID_INDICATOR_AS_BYTEARRAY ext = [BTC_SHORT_ID_INDICATOR ext]"

definition UL_ULL_SIZE_IN_BYTES :: nat where
  "UL_ULL_SIZE_IN_BYTES = 8"

fun le_bytes :: "nat \<Rightarrow> nat \<Rightarrow> bytes" where
  "le_bytes 0 v = []"
| "le_bytes (Suc k) v = of_nat (v mod 256) # le_bytes k (v div 256)"

fun le_value :: "bytes \<Rightarrow> nat" where
  "le_value [] = 0"
| "le_value (b # bs) = unat b + 256 * le_value bs"

definition pack_Q :: "nat \<Rightarrow> error + bytes" where
  "pack_Q v = (if v < 2 ^ 64 then Inr (le_bytes 8 v) else Inl (PyError StructError))"

record BlockOffsets =
  short_id_offset :: nat
  block_begin_offset :: nat

definition get_bx_block_offsets :: "bytes \<Rightarrow> error + BlockOffsets" where
  "get_bx_block_offsets bx_block =
     (if length bx_block < 8 then Inl (PyError StructError)
      else Inr \<lparr>short_id_offset = le_value (take 8 bx_block), block_begin_offset = UL_ULL_SIZE_IN_BYTES\<rparr>)"

text \<open>Modelled from the spec: a hard decompression failure reported with the block hash.\<close>

definition btc_block_decompression_error :: "Sha256Hash \<Rightarrow> error" where
  "btc_block_decompression_error block_hash = MessageConversionError block_hash BLOCK_DECOMPRESSION"

text \<open>\<open>BlockBtcMessage(buf=...)\<close> as the block message the service handles.\<close>

definition BlockBtcMessage :: "btc_externals \<Rightarrow> bytes \<Rightarrow> BlockMessage" where
  "BlockBtcMessage ext buf = \<lparr>blk_hash = msg_block_hash ext buf, blk_buf = buf\<rparr>"

text \<open>
  \<open>block[off:next_off] = blob\<close> on a bytearray replaces the (clamped) slice by the blob.
  Both converters fill a zeroed \<open>bytearray(size)\<close> this way, piece after piece.
\<close>

fun write_pieces :: "bytes \<Rightarrow> nat \<Rightarrow> bytes list \<Rightarrow> bytes \<times> nat" where
  "write_pieces block off [] = (block, off)"
| "write_pieces block off (blob # blobs) =
     (let next_off = off + length blob
      in write_pieces (take off block @ blob @ drop next_off block) next_off blobs)"

record BlockHeaderInfo =
  hdr_block_offsets :: BlockOffsets
  hdr_short_ids :: "nat list"
  hdr_short_ids_len :: nat
  hdr_block_hash :: Sha256Hash
  hdr_offset :: nat
  hdr_txn_count :: nat

text \<open>\<open>parse_bx_block_header\<close> returns the header information and the header piece.\<close>

definition parse_bx_block_header :: "btc_externals \<Rightarrow> bytes \<Rightarrow> error + BlockHeaderInfo \<times> bytes list" where
  "parse_bx_block_header ext bx_block =
     (case get_bx_block_offsets bx_block of
        Inl e \<Rightarrow> Inl e
      | Inr block_offsets \<Rightarrow>
          (case deserialize_short_ids_from_buffer ext bx_block (short_id_offset block_offsets) of
             Inl e \<Rightarrow> Inl e
           | Inr deserialized \<Rightarrow>
               (let block_header_size = block_begin_offset block_offsets + BTC_HDR_COMMON_OFF ext
                                          + BTC_BLOCK_HDR_SIZE ext;
                    block_hash = bitcoin_hash ext
                                   (slice bx_block (block_begin_offset block_offsets + BTC_HDR_COMMON_OFF ext)
                                      block_header_size)
                in case btc_varint_to_int ext bx_block block_header_size of
                     Inl e \<Rightarrow> Inl e
                   | Inr txn_count \<Rightarrow>
                       (let offset = block_header_size + snd txn_count
                        in Inr (\<lparr>hdr_block_offsets = block_offsets, hdr_short_ids = fst deserialized,
                                  hdr_short_ids_len = snd deserialized, hdr_block_hash = block_hash,
                                  hdr_offset = offset, hdr_txn_count = fst txn_count\<rparr>,
                                [slice bx_block (block_begin_offset block_offsets) offset])))))"

text \<open>
  The \<open>while\<close> loop of \<open>parse_bx_block_transactions\<close>. \<open>None\<close> stands for a loop that
  never ends: a transaction size of 0 leaves \<open>offset\<close> where it is. \<open>len(tx)\<close> on missing
  contents raises \<open>TypeError\<close>, \<open>bx_block[offset]\<close> beyond the buffer \<open>IndexError\<close>.
\<close>

function parse_transactions_loop ::
  "btc_externals \<Rightarrow> Sha256Hash \<Rightarrow> bytes \<Rightarrow> nat list \<Rightarrow> BlockOffsets \<Rightarrow> TransactionService
     \<Rightarrow> nat \<Rightarrow> nat \<Rightarrow> nat \<Rightarrow> bytes list \<Rightarrow> (error + bytes list \<times> nat) option" where
  "parse_transactions_loop ext block_hash bx_block short_ids block_offsets ts
       offset short_tx_index output_offset block_pieces =
     (if offset < short_id_offset block_offsets then
        (if offset \<ge> length bx_block then Some (Inl (PyError IndexError))
         else if bx_block ! offset = BTC_SHORT_ID_INDICATOR ext then
           (if short_tx_index \<ge> length short_ids then
              Some (Inl (btc_block_decompression_error block_hash))
            else
              (case fst (snd (get_transaction ts (short_ids ! short_tx_index))) of
                 None \<Rightarrow> Some (Inl (PyError TypeError))
               | Some tx \<Rightarrow>
                   parse_transactions_loop ext block_hash bx_block short_ids block_offsets ts
                     (offset + BTC_SHORT_ID_INDICATOR_LENGTH) (short_tx_index + 1)
                     (output_offset + length tx) (block_pieces @ [tx])))
         else
           (case get_next_tx_size ext bx_block offset of
              Inl e \<Rightarrow> Some (Inl e)
            | Inr tx_size \<Rightarrow>
                (if tx_size = 0 then None
                 else
                   (let tx = slice bx_block offset (offset + tx_size)
                    in parse_transactions_loop ext block_hash bx_block short_ids block_offsets ts
                         (offset + tx_size) short_tx_index (output_offset + length tx)
                         (block_pieces @ [tx])))))
      else Some (Inr (block_pieces, output_offset)))"
  by pat_completeness auto
termination
  by (relation "measure (\<lambda>(ext, block_hash, bx_block, short_ids, block_offsets, ts, offset, rest).
                            short_id_offset block_offsets - offset)")
     (auto simp add: BTC_SHORT_ID_INDICATOR_LENGTH_def)

declare parse_transactions_loop.simps [simp del]

text \<open>
  \<open>parse_bx_block_transactions\<close> returns the unknown short ids and hashes, the output
  offset and the pieces.
\<close>

definition parse_bx_block_transactions ::
  "btc_externals \<Rightarrow> Sha256Hash \<Rightarrow> bytes \<Rightarrow> nat \<Rightarrow> nat list \<Rightarrow> BlockOffsets \<Rightarrow> TransactionService
     \<Rightarrow> bytes list \<Rightarrow> (error + nat list \<times> Sha256Hash list \<times> nat \<times> bytes list) option" where
  "parse_bx_block_transactions ext block_hash bx_block offset short_ids block_offsets ts block_pieces =
     (case get_missing_transactions ts short_ids of
        (has_missing, unknown_tx_sids, unknown_tx_hashes) \<Rightarrow>
          if has_missing then Some (Inr (unknown_tx_sids, unknown_tx_hashes, offset, block_pieces))
          else
            (case parse_transactions_loop ext block_hash bx_block short_ids block_offsets ts
                    offset 0 offset block_pieces of
               None \<Rightarrow> None
             | Some (Inl e) \<Rightarrow> Some (Inl e)
             | Some (Inr walked) \<Rightarrow>
                 Some (Inr (unknown_tx_sids, unknown_tx_hashes, snd walked, fst walked))))"

definition build_btc_block :: "btc_externals \<Rightarrow> bytes list \<Rightarrow> nat \<Rightarrow> BlockMessage \<times> nat" where
  "build_btc_block ext block_pieces block_size =
     (let written = write_pieces (replicate block_size 0) 0 block_pieces
      in (BlockBtcMessage ext (fst written), snd written))"

text \<open>
  Modelled from the spec: \<open>get_block_info\<close> is not among the sources. The block
  information records the block hash, the short ids, the transaction count and the sizes
  (the original size is that of the rebuilt message, 0 when there is none).
\<close>

definition get_block_info ::
  "bytes \<Rightarrow> Sha256Hash \<Rightarrow> nat list \<Rightarrow> nat \<Rightarrow> BlockMessage option \<Rightarrow> BlockInfo" where
  "get_block_info bx_block block_hash short_ids total_tx_count btc_block_msg =
     \<lparr>info_block_hash = block_hash, info_short_ids = short_ids, info_txn_count = total_tx_count,
      info_original_size = (case btc_block_msg of None \<Rightarrow> 0 | Some m \<Rightarrow> length (blk_buf m)),
      info_compressed_size = length bx_block\<rparr>"

text \<open>
  The loop of \<open>block_to_bx_block\<close> over the transactions, on \<open>(buf, short_ids, size)\<close>.
\<close>

fun compress_transactions ::
  "btc_externals \<Rightarrow> TransactionService \<Rightarrow> bytes list \<Rightarrow> bytes list \<times> nat list \<times> nat
     \<Rightarrow> bytes list \<times> nat list \<times> nat" where
  "compress_transactions ext ts [] acc = acc"
| "compress_transactions ext ts (tx # txs) (buf, short_ids, sz) =
     (let tx_hash = get_txid ext tx;
          short_id = get_short_id ts tx_hash
      in if short_id = NULL_TX_SID then
           compress_transactions ext ts txs (buf @ [tx], short_ids, sz + length tx)
         else
           compress_transactions ext ts txs
             (buf @ [BTC_SHORT_ID_INDICATOR_AS_BYTEARRAY ext], short_ids @ [short_id], sz + 1))"

text \<open>
  \<open>block_to_bx_block\<close> on the buffer of the block message; \<open>rawbytes()\<close> is taken to be
  that buffer. The compression rate divides by the original size.
\<close>

definition block_to_bx_block ::
  "btc_externals \<Rightarrow> bytes \<Rightarrow> TransactionService \<Rightarrow> error + bytes \<times> BlockInfo" where
  "block_to_bx_block ext block_msg ts =
     (let header = msg_header ext block_msg;
          compressed = compress_transactions ext ts (msg_txns ext block_msg) ([header], [], length header);
          buf = fst compressed; short_ids = fst (snd compressed); sz = snd (snd compressed)
      in case serialize_short_ids_into_bytes ext short_ids of
           Inl e \<Rightarrow> Inl e
         | Inr serialized_short_ids \<Rightarrow>
             (let sz1 = sz + UL_ULL_SIZE_IN_BYTES
              in case pack_Q sz1 of
                   Inl e \<Rightarrow> Inl e
                 | Inr offset_buf \<Rightarrow>
                     (let buf2 = offset_buf # (buf @ [serialized_short_ids]);
                          sz2 = sz1 + length serialized_short_ids;
                          block = fst (write_pieces (replicate sz2 0) 0 buf2);
                          original_size = length block_msg
                      in if original_size = 0 then Inl (PyError ZeroDivisionError)
                         else Inr (block,
                                \<lparr>info_block_hash = msg_block_hash ext block_msg, info_short_ids = short_ids,
                                 info_txn_count = msg_txn_count ext block_msg,
                                 info_original_size = original_size, info_compressed_size = sz2\<rparr>))))"

definition bx_block_to_block ::
  "btc_externals \<Rightarrow> bytes \<Rightarrow> TransactionService
     \<Rightarrow> (error + BlockMessage option \<times> BlockInfo \<times> nat list \<times> Sha256Hash list) option" where
  "bx_block_to_block ext bx_block_msg ts =
     (case parse_bx_block_header ext bx_block_msg of
        Inl e \<Rightarrow> Some (Inl e)
      | Inr parsed_header \<Rightarrow>
          (let header_info = fst parsed_header; block_pieces = snd parsed_header
           in case parse_bx_block_transactions ext (hdr_block_hash header_info) bx_block_msg
                     (hdr_offset header_info) (hdr_short_ids header_info)
                     (hdr_block_offsets header_info) ts block_pieces of
                None \<Rightarrow> None
              | Some (Inl e) \<Rightarrow> Some (Inl e)
              | Some (Inr parsed) \<Rightarrow>
                  (let unknown_tx_sids = fst parsed; unknown_tx_hashes = fst (snd parsed);
                       offset = fst (snd (snd parsed)); pieces = snd (snd (snd parsed));
                       total_tx_count = hdr_txn_count header_info;
                       btc_block_msg =
                         (if unknown_tx_sids = [] \<and> unknown_tx_hashes = []
                          then Some (fst (build_btc_block ext pieces offset)) else None);
                       block_info = get_block_info bx_block_msg (hdr_block_hash header_info)
                                      (hdr_short_ids header_info) total_tx_count btc_block_msg
                   in Some (Inr (btc_block_msg, block_info, unknown_tx_sids, unknown_tx_hashes)))))"

section \<open>Ethereum discovery connection\<close>

text \<open>
  \<open>EthNodeDiscoveryConnection\<close> with the part of the node it touches. The ping message is
  built from the node's private key, which signs it. \<open>send_ping\<close> (bxcommon) enqueues
  the connection's ping message when \<open>can_send_pings\<close> is set and the connection is not
  marked for close.
\<close>

definition P2P_PROTOCOL_VERSION :: nat where
  "P2P_PROTOCOL_VERSION = 4"

definition PING_MSG_TTL_SEC :: int where
  "PING_MSG_TTL_SEC = 60"

definition DISCOVERY_PONG_TIMEOUT_SEC :: real where
  "DISCOVERY_PONG_TIMEOUT_SEC = 5"

record PingEthDiscoveryMessage =
  ping_private_key :: bytes
  ping_protocol_version :: nat
  ping_listen_address :: "string \<times> nat \<times> nat"
  ping_remote_address :: "string \<times> nat \<times> nat"
  ping_expiration :: int

datatype discovery_callback = PongTimeout

record EthNodeDiscoveryConnection =
  external_ip :: string
  external_port :: nat
  peer_ip :: string
  peer_port :: nat
  can_send_pings :: bool
  ping_message :: "PingEthDiscoveryMessage option"
  pong_received :: bool
  marked_for_close :: bool
  outputbuf :: "PingEthDiscoveryMessage list"
  discovery_log :: "(LogLevel \<times> string) list"

record EthGatewayNode =
  eth_private_key :: bytes
  eth_clock :: real
  remote_public_key :: "bytes option"
  eth_alarms :: "(real \<times> discovery_callback) list"

definition send_ping :: "EthNodeDiscoveryConnection \<Rightarrow> EthNodeDiscoveryConnection" where
  "send_ping conn =
     (case ping_message conn of
        Some ping \<Rightarrow>
          (if can_send_pings conn \<and> \<not> marked_for_close conn
           then conn\<lparr>outputbuf := outputbuf conn @ [ping]\<rparr> else conn)
      | None \<Rightarrow> conn)"

text \<open>
  The constructor, on the connection as the base class leaves it; \<open>resolved_peer_ip\<close> is
  the result of \<open>socket.gethostbyname(self.peer_ip)\<close>.
\<close>

definition EthNodeDiscoveryConnection_init ::
  "string \<Rightarrow> EthNodeDiscoveryConnection \<Rightarrow> EthGatewayNode \<Rightarrow> EthNodeDiscoveryConnection \<times> EthGatewayNode" where
  "EthNodeDiscoveryConnection_init resolved_peer_ip base node =
     (let conn = base\<lparr>can_send_pings := True,
                      ping_message := Some
                        \<lparr>ping_private_key = eth_private_key node,
                         ping_protocol_version = P2P_PROTOCOL_VERSION,
                         ping_listen_address = (external_ip base, external_port base, external_port base),
                         ping_remote_address = (resolved_peer_ip, peer_port base, peer_port base),
                         ping_expiration = \<lfloor>eth_clock node\<rfloor> + PING_MSG_TTL_SEC\<rparr>,
                      pong_received := False\<rparr>
      in (send_ping conn,
          node\<lparr>eth_alarms := eth_alarms node @ [(eth_clock node + DISCOVERY_PONG_TIMEOUT_SEC, PongTimeout)]\<rparr>))"

definition mark_for_close :: "EthNodeDiscoveryConnection \<Rightarrow> EthNodeDiscoveryConnection" where
  "mark_for_close conn = conn\<lparr>marked_for_close := True\<rparr>"

text \<open>
  Modelled from the spec: \<open>set_remote_public_key\<close> of the Ethereum gateway node is not
  among the sources. On \<open>pong\<close> the remote public key is recorded, then the connection is
  closed.
\<close>

definition set_remote_public_key ::
  "EthNodeDiscoveryConnection \<Rightarrow> bytes \<Rightarrow> EthGatewayNode \<Rightarrow> EthNodeDiscoveryConnection \<times> EthGatewayNode" where
  "set_remote_public_key conn public_key node =
     (mark_for_close conn, node\<lparr>remote_public_key := Some public_key\<rparr>)"

definition msg_ping :: "EthNodeDiscoveryConnection \<Rightarrow> EthNodeDiscoveryConnection" where
  "msg_ping conn = conn"

definition msg_pong ::
  "bytes \<Rightarrow> EthNodeDiscoveryConnection \<Rightarrow> EthGatewayNode \<Rightarrow> EthNodeDiscoveryConnection \<times> EthGatewayNode" where
  "msg_pong public_key conn node =
     (let recorded = set_remote_public_key conn public_key node
      in ((fst recorded)\<lparr>pong_received := True\<rparr>, snd recorded))"

definition pong_timeout :: "EthNodeDiscoveryConnection \<Rightarrow> EthNodeDiscoveryConnection" where
  "pong_timeout conn =
     (if \<not> pong_received conn then
        mark_for_close
          (conn\<lparr>discovery_log := discovery_log conn @
             [(WARNING, ''Pong message was not received within allocated timeout connection. Closing.'')]\<rparr>)
      else conn)"

section \<open>Vocabulary of the properties\<close>

text \<open>
  Firing an alarm: only an alarm that is still registered runs, once. A recovery retry
  runs on the record the recovery service holds for the block when it still holds one.
\<close>

definition current_recovery_info :: "BlockRecoveryInfo \<Rightarrow> node \<Rightarrow> BlockRecoveryInfo" where
  "current_recovery_info r n =
     (case find (\<lambda>r'. rec_block_hash r' = rec_block_hash r)
             (blocks_awaiting_recovery (block_recovery_service n)) of
        Some r' \<Rightarrow> r'
      | None \<Rightarrow> r)"

definition fire_alarm :: "nat \<Rightarrow> node \<Rightarrow> error + node" where
  "fire_alarm alarm_id n =
     (case map_of (alarms (alarm_queue n)) alarm_id of
        None \<Rightarrow> Inr n
      | Some a \<Rightarrow>
          (let n1 = n\<lparr>alarm_queue := unregister_alarm alarm_id (alarm_queue n)\<rparr> in
           case callback a of
             HoldingTimeout h hold \<Rightarrow> holding_timeout h hold n1
           | TriggerRecoveryRetry r \<Rightarrow> Inr (trigger_recovery_retry (current_recovery_info r n1) n1)
           | HoldsCleanup \<Rightarrow> Inr (holds_cleanup n1)))"

text \<open>A run of \<open>place_hold\<close> calls for one hash, from the connections \<open>cs\<close> in order.\<close>

fun place_holds :: "Sha256Hash \<Rightarrow> connection list \<Rightarrow> node \<Rightarrow> node" where
  "place_holds h [] n = n"
| "place_holds h (c # cs) n = place_holds h cs (place_hold h c n)"

text \<open>The outward calls that show a block being compressed or propagated.\<close>

fun compressed_or_propagated :: "effect \<Rightarrow> bool" where
  "compressed_or_propagated (PropagateBlockToNetwork bx c info) = True"
| "compressed_or_propagated (TrackSeenShortIdsDelayed h sids) = True"
| "compressed_or_propagated (BlockStatEvent h t) = (t = BLOCK_COMPRESSED \<or> t = BLOCK_CONVERSION_FAILED)"
| "compressed_or_propagated e = False"

fun is_broadcast :: "effect \<Rightarrow> bool" where
  "is_broadcast (Broadcast m c p ts) = True"
| "is_broadcast e = False"

text \<open>
  What compression writes for a transaction, and the short ids it records for a block.
\<close>

definition tx_piece :: "btc_externals \<Rightarrow> TransactionService \<Rightarrow> bytes \<Rightarrow> bytes" where
  "tx_piece ext ts tx =
     (if get_short_id ts (get_txid ext tx) = NULL_TX_SID then tx else BTC_SHORT_ID_INDICATOR_AS_BYTEARRAY ext)"

definition block_short_ids :: "btc_externals \<Rightarrow> TransactionService \<Rightarrow> bytes list \<Rightarrow> nat list" where
  "block_short_ids ext ts txs =
     filter (\<lambda>sid. sid \<noteq> NULL_TX_SID) (map (\<lambda>tx. get_short_id ts (get_txid ext tx)) txs)"

text \<open>
  A transaction is known to the transaction service when its hash has a short id, that
  short id leads back to the hash, and the contents stored for the hash are the
  transaction's bytes.
\<close>

definition tx_known :: "btc_externals \<Rightarrow> TransactionService \<Rightarrow> bytes \<Rightarrow> bool" where
  "tx_known ext ts tx =
     (get_short_id ts (get_txid ext tx) \<noteq> NULL_TX_SID
      \<and> short_id_to_tx_hash ts (get_short_id ts (get_txid ext tx)) = Some (get_txid ext tx)
      \<and> tx_hash_to_contents ts (get_txid ext tx) = Some tx)"

text \<open>
  A block message is well formed when its buffer is its header followed by its
  transactions, none of them empty, and the header ends with the transaction-count varint
  that follows the message header and the block header.
\<close>

definition well_formed_block :: "btc_externals \<Rightarrow> bytes \<Rightarrow> bool" where
  "well_formed_block ext block_msg =
     (block_msg \<noteq> []
      \<and> block_msg = msg_header ext block_msg @ concat (msg_txns ext block_msg)
      \<and> [] \<notin> set (msg_txns ext block_msg)
      \<and> (case btc_varint_to_int ext block_msg (BTC_HDR_COMMON_OFF ext + BTC_BLOCK_HDR_SIZE ext) of
            Inl e \<Rightarrow> False
          | Inr txn_count \<Rightarrow>
              length (msg_header ext block_msg) =
                BTC_HDR_COMMON_OFF ext + BTC_BLOCK_HDR_SIZE ext + snd txn_count))"

text \<open>
  The varint reader depends on the bytes of the varint only: what it reads at one place
  it reads wherever the same bytes stand.
\<close>

definition varint_local :: "btc_externals \<Rightarrow> bool" where
  "varint_local ext =
     (\<forall>buf off buf' off' v k.
        btc_varint_to_int ext buf off = Inr (v, k)
        \<and> slice buf' off' (off' + k) = slice buf off (off + k)
        \<longrightarrow> btc_varint_to_int ext buf' off' = Inr (v, k))"

text \<open>
  A list of short ids is serializable when the short-id serializer writes it and the
  deserializer, started where the written bytes begin at the end of a buffer, reads the
  same list.
\<close>

definition short_ids_serializable :: "btc_externals \<Rightarrow> nat list \<Rightarrow> bool" where
  "short_ids_serializable ext sids =
     (\<exists>serialized.
        serialize_short_ids_into_bytes ext sids = Inr serialized
        \<and> (\<forall>pre. \<exists>len.
              deserialize_short_ids_from_buffer ext (pre @ serialized) (length pre) = Inr (sids, len)))"

text \<open>
  The Bitcoin converter as the node calls it. A decompression that never returns has no
  value here.
\<close>

definition btc_converter :: "btc_externals \<Rightarrow> MessageConverter" where
  "btc_converter ext =
     \<lparr>conv_block_to_bx_block = (\<lambda>m ts. block_to_bx_block ext (blk_buf m) ts),
      conv_bx_block_to_block = (\<lambda>bx ts. the (bx_block_to_block ext bx ts))\<rparr>"

subsection \<open>Sample values\<close>

definition relay_conn :: connection where
  "relay_conn = \<lparr>peer_desc = ''relay'', conn_network_num = 1, CONNECTION_TYPE = RELAY_ALL\<rparr>"

definition block_relay_conn :: connection where
  "block_relay_conn = \<lparr>peer_desc = ''block relay'', conn_network_num = 1, CONNECTION_TYPE = [RELAY_BLOCK]\<rparr>"

definition gateway_conn :: connection where
  "gateway_conn = \<lparr>peer_desc = ''gateway'', conn_network_num = 1, CONNECTION_TYPE = [GATEWAY]\<rparr>"

definition blockchain_conn :: connection where
  "blockchain_conn = \<lparr>peer_desc = ''node'', conn_network_num = 1, CONNECTION_TYPE = [BLOCKCHAIN_NODE]\<rparr>"

definition empty_tx_service :: TransactionService where
  "empty_tx_service =
     \<lparr>tx_hash_to_short_ids = (\<lambda>h. []), short_id_to_tx_hash = (\<lambda>sid. None),
      tx_hash_to_contents = (\<lambda>h. None)\<rparr>"

text \<open>
  A converter for the samples: compression leaves the bytes as they are, and fails with a
  conversion error on an empty message.
\<close>

definition sample_converter :: MessageConverter where
  "sample_converter =
     \<lparr>conv_block_to_bx_block =
        (\<lambda>m ts. if blk_buf m = [] then Inl (MessageConversionError (blk_hash m) BLOCK_COMPRESSION)
                 else Inr (blk_buf m,
                        \<lparr>info_block_hash = blk_hash m, info_short_ids = [], info_txn_count = 0,
                         info_original_size = length (blk_buf m),
                         info_compressed_size = length (blk_buf m)\<rparr>)),
      conv_bx_block_to_block =
        (\<lambda>bx ts. if bx = [] then Inl (MessageConversionError [] BLOCK_DECOMPRESSION)
                  else Inr (Some \<lparr>blk_hash = take 1 bx, blk_buf = bx\<rparr>,
                         \<lparr>info_block_hash = take 1 bx, info_short_ids = [], info_txn_count = 0,
                          info_original_size = length bx, info_compressed_size = length bx\<rparr>,
                         [], []))\<rparr>"

definition sample_node :: node where
  "sample_node =
     \<lparr>opts_blockchain_block_hold_timeout_s = 30,
      opts_blockchain_block_recovery_timeout_s = 10,
      opts_dump_short_id_mapping_compression = False,
      network_num = 1,
      clock = 100,
      connection_pool = [relay_conn, gateway_conn],
      node_conn = Some blockchain_conn,
      remote_node_conn = None,
      blocks_seen = {},
      holds = (\<lambda>h. None),
      holds_index = [],
      alarm_queue = \<lparr>alarms = [], next_alarm_id = 0\<rparr>,
      register_approx_alarm = batched_register_approx_alarm,
      in_progress_blocks = (\<lambda>h. None),
      tx_service = empty_tx_service,
      block_recovery_service =
        \<lparr>blocks_awaiting_recovery = [], recovery_attempts_by_block = (\<lambda>h. 0), recovered_blocks = []\<rparr>,
      block_queuing_service = [],
      message_converter = sample_converter,
      double_sha256 = (\<lambda>b. take 1 (rev b)),
      symmetric_decrypt = (\<lambda>k c. if k = take 1 c then Some (drop 1 c) else None),
      effects = []\<rparr>"

definition sample_key_msg :: KeyMessage where
  "sample_key_msg = \<lparr>key_block_hash = [1], key_key = [7]\<rparr>"

definition node_with_key :: node where
  "node_with_key =
     sample_node\<lparr>in_progress_blocks := (\<lambda>h. None)([1] \<mapsto> \<lparr>ciphertext = None, enc_key = Some [7]\<rparr>)\<rparr>"

definition sample_block :: BlockMessage where
  "sample_block = \<lparr>blk_hash = [1], blk_buf = [1, 2, 3]\<rparr>"



text \<open>
  The node after a gateway peer has placed a hold on block \<open>[1]\<close> and the blockchain node
  has then delivered that block.
\<close>

definition held_node :: node where
  "held_node = projr (queue_block_for_processing sample_block blockchain_conn
                        (place_hold [1] gateway_conn sample_node))"

definition encrypted_msg :: BroadcastMessage where
  "encrypted_msg = \<lparr>bcast_block_hash = [1], bcast_is_encrypted = True, bcast_blob = [7, 9, 1]\<rparr>"

definition inconsistent_msg :: BroadcastMessage where
  "inconsistent_msg = \<lparr>bcast_block_hash = [1], bcast_is_encrypted = True, bcast_blob = [7, 9, 2]\<rparr>"



definition node_with_tx :: node where
  "node_with_tx =
     sample_node\<lparr>tx_service :=
       \<lparr>tx_hash_to_short_ids = (\<lambda>h. [])([5] := [7]),
        short_id_to_tx_hash = (\<lambda>sid. None)(7 \<mapsto> [5]),
        tx_hash_to_contents = (\<lambda>h. None)([5] \<mapsto> [1, 2])\<rparr>\<rparr>"

definition duplicate_tx_msg :: TxMessage where
  "duplicate_tx_msg = \<lparr>txm_short_id = None, txm_tx_hash = [5], txm_network_num = 1, txm_tx_val = [1, 2]\<rparr>"

text \<open>
  Externals for the samples: the Bitcoin offsets (24-byte message header, 80-byte block
  header), the indicator byte \<open>0xff\<close>, one-byte transaction counts, two-byte
  transactions that are their own hash, and short ids serialized as a count and an array
  of 32-bit little-endian integers.
\<close>

definition sample_varint :: "bytes \<Rightarrow> nat \<Rightarrow> error + nat \<times> nat" where
  "sample_varint buf off =
     (case drop off buf of [] \<Rightarrow> Inl (PyError IndexError) | b # _ \<Rightarrow> Inr (unat b, 1))"

fun tx_chunks :: "bytes \<Rightarrow> bytes list" where
  "tx_chunks (a # b # rest) = [a, b] # tx_chunks rest"
| "tx_chunks rest = []"

definition sample_serialize :: "nat list \<Rightarrow> error + bytes" where
  "sample_serialize sids =
     (if length sids < 2 ^ 32 \<and> list_all (\<lambda>sid. sid < 2 ^ 32) sids
      then Inr (le_bytes 4 (length sids) @ concat (map (le_bytes 4) sids))
      else Inl (PyError StructError))"

definition sample_deserialize :: "bytes \<Rightarrow> nat \<Rightarrow> error + nat list \<times> nat" where
  "sample_deserialize buf off =
     (if length buf < off + 4 then Inl (PyError StructError)
      else
        (let n = le_value (slice buf off (off + 4))
         in if length buf < off + 4 + 4 * n then Inl (PyError StructError)
            else Inr (map (\<lambda>i. le_value (slice buf (off + 4 + 4 * i) (off + 8 + 4 * i))) [0..<n],
                      4 + 4 * n)))"

definition sample_btc_ext :: btc_externals where
  "sample_btc_ext =
     \<lparr>BTC_HDR_COMMON_OFF = 24, BTC_BLOCK_HDR_SIZE = 80, BTC_SHORT_ID_INDICATOR = 255,
      btc_varint_to_int = sample_varint,
      get_next_tx_size = (\<lambda>buf off. Inr 2),
      get_txid = (\<lambda>tx. tx),
      bitcoin_hash = (\<lambda>b. take 1 b),
      serialize_short_ids_into_bytes = sample_serialize,
      deserialize_short_ids_from_buffer = sample_deserialize,
      msg_header = take 105,
      msg_txns = (\<lambda>buf. tx_chunks (drop 105 buf)),
      msg_txn_count = (\<lambda>buf. case sample_varint buf 104 of Inl e \<Rightarrow> 0 | Inr txn_count \<Rightarrow> fst txn_count),
      msg_block_hash = (\<lambda>buf. take 1 (drop 24 buf))\<rparr>"

text \<open>A block with one transaction, and its compressed form when the transaction has short id 7.\<close>

definition sample_btc_block :: bytes where
  "sample_btc_block = replicate 104 0 @ [1] @ [170, 187]"

definition sample_bx_block :: bytes where
  "sample_bx_block = [114, 0, 0, 0, 0, 0, 0, 0] @ replicate 104 0 @ [1, 255, 1, 0, 0, 0, 7, 0, 0, 0]"

text \<open>The same bx-block with a second indicator byte and still one short id.\<close>

definition overflow_bx_block :: bytes where
  "overflow_bx_block = [115, 0, 0, 0, 0, 0, 0, 0] @ replicate 104 0 @ [1, 255, 255, 1, 0, 0, 0, 7, 0, 0, 0]"

definition known_tx_service :: TransactionService where
  "known_tx_service =
     \<lparr>tx_hash_to_short_ids = (\<lambda>h. [])([170, 187] := [7]),
      short_id_to_tx_hash = (\<lambda>sid. None)(7 \<mapsto> [170, 187]),
      tx_hash_to_contents = (\<lambda>h. None)([170, 187] \<mapsto> [170, 187])\<rparr>"

text \<open>The short id of the transaction is assigned, its contents have not arrived.\<close>

definition sid_only_tx_service :: TransactionService where
  "sid_only_tx_service =
     \<lparr>tx_hash_to_short_ids = (\<lambda>h. [])([170, 187] := [7]),
      short_id_to_tx_hash = (\<lambda>sid. None)(7 \<mapsto> [170, 187]),
      tx_hash_to_contents = (\<lambda>h. None)\<rparr>"

definition btc_node :: node where
  "btc_node = sample_node\<lparr>tx_service := known_tx_service, message_converter := btc_converter sample_btc_ext\<rparr>"

definition discovery_base :: EthNodeDiscoveryConnection where
  "discovery_base =
     \<lparr>external_ip = ''10.0.0.1'', external_port = 30303, peer_ip = ''10.0.0.2'', peer_port = 30303,
      can_send_pings = False, ping_message = None, pong_received = False, marked_for_close = False,
      outputbuf = [], discovery_log = []\<rparr>"

definition eth_node :: EthGatewayNode where
  "eth_node = \<lparr>eth_private_key = [42], eth_clock = 100, remote_public_key = None, eth_alarms = []\<rparr>"


text \<open>
  The sample Bitcoin block as a block message, a node that dumps the short-id mapping on
  compression, and a transaction service in which the short id of the transaction leads
  to no hash.
\<close>

definition btc_block_msg :: BlockMessage where
  "btc_block_msg = \<lparr>blk_hash = [0], blk_buf = sample_btc_block\<rparr>"



text \<open>
  A run in which a hold expires while its timeout alarm is pending (the hold timeout is 30
  seconds). A gateway peer places a hold on block \<open>[2]\<close> at time 80, which schedules the
  sweep of the holds (alarm 0, due at 140), and a hold on block \<open>[1]\<close> at time 100, for which
  the pending sweep serves. The blockchain node delivers block \<open>[1]\<close> at time 120: the block
  is stored on the hold and the hold timeout is armed (alarm 1, due at 150). The sweep
  runs at time 140 and removes both holds.
\<close>

definition expired_hold_node :: node where
  "expired_hold_node =
     projr (fire_alarm 0
       ((projr (queue_block_for_processing sample_block blockchain_conn
          ((place_hold [1] gateway_conn
             ((place_hold [2] gateway_conn (sample_node\<lparr>clock := 80\<rparr>))\<lparr>clock := 100\<rparr>))\<lparr>clock := 120\<rparr>)))
        \<lparr>clock := 140\<rparr>))"

text \<open>
  Then a peer places a hold on block \<open>[1]\<close> again, at time 141, and the hold is cancelled.
\<close>

definition lifted_node :: node where
  "lifted_node =
     cancel_hold_timeout [1] relay_conn (place_holds [1] [gateway_conn] (expired_hold_node\<lparr>clock := 141\<rparr>))"

text \<open>
  The node after the bx-block with two indicator bytes and one short id has arrived while
  the contents of the transaction with that short id were unknown.
\<close>

definition awaiting_node :: node where
  "awaiting_node =
     projr (handle_decrypted_block overflow_bx_block relay_conn None False
              (btc_node\<lparr>tx_service := sid_only_tx_service\<rparr>))"

section \<open>Properties\<close>

subsection \<open>Compression and decompression of Bitcoin blocks\<close>

lemma le_bytes_length: "length (le_bytes k v) = k"
  by (induction k arbitrary: v) simp_all

lemma le_value_le_bytes: "v < 256 ^ k \<Longrightarrow> le_value (le_bytes k v) = v"
proof (induction k arbitrary: v)
  case 0
  then show ?case by simp
next
  case (Suc k)
  have "v div 256 < 256 ^ k"
    using Suc.prems by (simp add: less_mult_imp_div_less mult.commute)
  then have "le_value (le_bytes k (v div 256)) = v div 256"
    by (rule Suc.IH)
  moreover have "unat (of_nat (v mod 256) :: byte) = v mod 256"
    by (simp add: unat_of_nat)
  ultimately show ?case by simp
qed

lemma write_pieces_concat:
  "off \<le> length block \<Longrightarrow>
   write_pieces block off ps =
     (take off block @ concat ps @ drop (off + length (concat ps)) block, off + length (concat ps))"
proof (induction ps arbitrary: block off)
  case Nil
  then show ?case by simp
next
  case (Cons blob ps)
  let ?block = "take off block @ blob @ drop (off + length blob) block"
  have len: "off + length blob \<le> length ?block"
    using Cons.prems by simp
  have tk: "take (off + length blob) ?block = take off block @ blob"
    using Cons.prems by simp
  have dr: "drop (off + length blob + length (concat ps)) ?block
              = drop (off + length blob + length (concat ps)) block"
    using Cons.prems by (simp add: add.commute add.left_commute)
  show ?case
    using Cons.IH [OF len] tk dr by (simp add: Let_def add.assoc)
qed

lemma write_pieces_zeroed:
  "write_pieces (replicate n 0) 0 ps =
     (concat ps @ replicate (n - length (concat ps)) 0, length (concat ps))"
  by (simp add: write_pieces_concat)

lemma compress_transactions_eq:
  "compress_transactions ext ts txs (buf, sids, sz) =
     (buf @ map (tx_piece ext ts) txs, sids @ block_short_ids ext ts txs,
      sz + length (concat (map (tx_piece ext ts) txs)))"
  by (induction txs arbitrary: buf sids sz)
     (simp_all add: tx_piece_def block_short_ids_def Let_def BTC_SHORT_ID_INDICATOR_AS_BYTEARRAY_def)

lemma loop_unfold_indicator:
  "offset < short_id_offset bo \<Longrightarrow> offset < length bx \<Longrightarrow> bx ! offset = BTC_SHORT_ID_INDICATOR ext \<Longrightarrow>
   parse_transactions_loop ext h bx sids bo ts offset idx out pieces =
     (if idx \<ge> length sids then Some (Inl (btc_block_decompression_error h))
      else case fst (snd (get_transaction ts (sids ! idx))) of
             None \<Rightarrow> Some (Inl (PyError TypeError))
           | Some tx \<Rightarrow>
               parse_transactions_loop ext h bx sids bo ts (offset + 1) (idx + 1)
                 (out + length tx) (pieces @ [tx]))"
  by (subst parse_transactions_loop.simps)
     (simp add: BTC_SHORT_ID_INDICATOR_LENGTH_def cong: option.case_cong)

lemma loop_done:
  "\<not> offset < short_id_offset bo \<Longrightarrow>
   parse_transactions_loop ext h bx sids bo ts offset idx out pieces = Some (Inr (pieces, out))"
  by (subst parse_transactions_loop.simps) simp

lemma indicator_run_head:
  assumes "take (Suc k) (drop offset bx) = replicate (Suc k) b"
  shows "offset < length bx" "bx ! offset = b" "take k (drop (Suc offset) bx) = replicate k b"
proof -
  have "length (take (Suc k) (drop offset bx)) = Suc k"
    using assms by simp
  then show lt: "offset < length bx"
    by (cases "offset < length bx") simp_all
  then have "drop offset bx = bx ! offset # drop (Suc offset) bx"
    by (simp add: Cons_nth_drop_Suc)
  with assms show "bx ! offset = b" "take k (drop (Suc offset) bx) = replicate k b"
    by simp_all
qed

lemma loop_all_known:
  "\<forall>tx \<in> set rest. tx_known ext ts tx \<Longrightarrow>
   sids = consumed @ map (\<lambda>tx. get_short_id ts (get_txid ext tx)) rest \<Longrightarrow>
   idx = length consumed \<Longrightarrow>
   take (length rest) (drop offset bx) = replicate (length rest) (BTC_SHORT_ID_INDICATOR ext) \<Longrightarrow>
   short_id_offset bo = offset + length rest \<Longrightarrow>
   parse_transactions_loop ext h bx sids bo ts offset idx out pieces =
     Some (Inr (pieces @ rest, out + length (concat rest)))"
proof (induction rest arbitrary: consumed idx offset out pieces)
  case Nil
  then show ?case by (simp add: loop_done)
next
  case (Cons tx rest)
  note run = indicator_run_head [of "length rest" offset bx "BTC_SHORT_ID_INDICATOR ext"]
  have head: "offset < length bx" "bx ! offset = BTC_SHORT_ID_INDICATOR ext"
    and tail: "take (length rest) (drop (Suc offset) bx) = replicate (length rest) (BTC_SHORT_ID_INDICATOR ext)"
    using run Cons.prems(4) by simp_all
  have known: "tx_known ext ts tx"
    using Cons.prems(1) by simp
  have sid: "sids ! idx = get_short_id ts (get_txid ext tx)" and more: "idx < length sids"
    using Cons.prems(2,3) by simp_all
  have contents: "fst (snd (get_transaction ts (sids ! idx))) = Some tx"
    using known by (simp add: sid tx_known_def get_transaction_def)
  have step: "parse_transactions_loop ext h bx sids bo ts offset idx out pieces =
                parse_transactions_loop ext h bx sids bo ts (offset + 1) (idx + 1)
                  (out + length tx) (pieces @ [tx])"
    using head more contents Cons.prems(5) by (simp add: loop_unfold_indicator)
  have "parse_transactions_loop ext h bx sids bo ts (offset + 1) (idx + 1) (out + length tx) (pieces @ [tx])
          = Some (Inr ((pieces @ [tx]) @ rest, (out + length tx) + length (concat rest)))"
  proof (rule Cons.IH)
    show "\<forall>tx \<in> set rest. tx_known ext ts tx"
      using Cons.prems(1) by simp
    show "sids = (consumed @ [get_short_id ts (get_txid ext tx)]) @ map (\<lambda>tx. get_short_id ts (get_txid ext tx)) rest"
      using Cons.prems(2) by simp
    show "idx + 1 = length (consumed @ [get_short_id ts (get_txid ext tx)])"
      using Cons.prems(3) by simp
    show "take (length rest) (drop (offset + 1) bx) = replicate (length rest) (BTC_SHORT_ID_INDICATOR ext)"
      using tail by simp
    show "short_id_offset bo = offset + 1 + length rest"
      using Cons.prems(5) by simp
  qed
  with step show ?case by simp
qed

lemma loop_overflow:
  "\<forall>sid \<in> set sids. fst (snd (get_transaction ts sid)) \<noteq> None \<Longrightarrow>
   idx \<le> length sids \<Longrightarrow>
   take k (drop offset bx) = replicate k (BTC_SHORT_ID_INDICATOR ext) \<Longrightarrow>
   length sids - idx < k \<Longrightarrow>
   short_id_offset bo = offset + k \<Longrightarrow>
   parse_transactions_loop ext h bx sids bo ts offset idx out pieces =
     Some (Inl (btc_block_decompression_error h))"
proof (induction "length sids - idx" arbitrary: idx offset out pieces k)
  case 0
  then obtain k' where k: "k = Suc k'"
    by (cases k) simp_all
  note run = indicator_run_head [of k' offset bx "BTC_SHORT_ID_INDICATOR ext"]
  have "offset < length bx" "bx ! offset = BTC_SHORT_ID_INDICATOR ext"
    using run "0.prems"(3) k by simp_all
  moreover have "idx \<ge> length sids"
    using "0.hyps" "0.prems"(2) by simp
  ultimately show ?case
    using "0.prems"(5) k by (simp add: loop_unfold_indicator)
next
  case (Suc m)
  then obtain k' where k: "k = Suc k'"
    by (cases k) simp_all
  note run = indicator_run_head [of k' offset bx "BTC_SHORT_ID_INDICATOR ext"]
  have head: "offset < length bx" "bx ! offset = BTC_SHORT_ID_INDICATOR ext"
    and tail: "take k' (drop (Suc offset) bx) = replicate k' (BTC_SHORT_ID_INDICATOR ext)"
    using run Suc.prems(3) k by simp_all
  have more: "idx < length sids"
    using Suc.hyps(2) by simp
  then have "fst (snd (get_transaction ts (sids ! idx))) \<noteq> None"
    using Suc.prems(1) by simp
  then obtain tx where contents: "fst (snd (get_transaction ts (sids ! idx))) = Some tx"
    by blast
  have step: "parse_transactions_loop ext h bx sids bo ts offset idx out pieces =
                parse_transactions_loop ext h bx sids bo ts (offset + 1) (idx + 1)
                  (out + length tx) (pieces @ [tx])"
    using head more contents Suc.prems(5) k by (simp add: loop_unfold_indicator)
  have "parse_transactions_loop ext h bx sids bo ts (offset + 1) (idx + 1) (out + length tx) (pieces @ [tx])
          = Some (Inl (btc_block_decompression_error h))"
  proof (rule Suc.hyps(1) [where k = k'])
    show "m = length sids - (idx + 1)"
      using Suc.hyps(2) by simp
    show "\<forall>sid \<in> set sids. fst (snd (get_transaction ts sid)) \<noteq> None"
      by (rule Suc.prems(1))
    show "idx + 1 \<le> length sids"
      using more by simp
    show "take k' (drop (offset + 1) bx) = replicate k' (BTC_SHORT_ID_INDICATOR ext)"
      using tail by simp
    show "length sids - (idx + 1) < k'"
      using Suc.prems(4) k more by simp
    show "short_id_offset bo = offset + 1 + k'"
      using Suc.prems(5) k by simp
  qed
  with step show ?case by simp
qed

lemma get_missing_transactions_none:
  "fst (get_missing_transactions ts sids) = False \<Longrightarrow>
   get_missing_transactions ts sids = (False, [], [])
   \<and> (\<forall>sid \<in> set sids. fst (snd (get_transaction ts sid)) \<noteq> None)"
  by (induction sids)
     (auto simp add: get_transaction_def split: prod.splits option.splits if_splits)

lemma get_missing_transactions_known:
  "\<forall>tx \<in> set txs. tx_known ext ts tx \<Longrightarrow>
   get_missing_transactions ts (map (\<lambda>tx. get_short_id ts (get_txid ext tx)) txs) = (False, [], [])"
  by (induction txs) (simp_all add: tx_known_def)

lemma transactions_counted:
  "[] \<notin> set txs \<Longrightarrow> length txs \<le> length (concat txs)"
proof (induction txs)
  case Nil
  then show ?case by simp
next
  case (Cons tx txs)
  then have "tx \<noteq> []" "length txs \<le> length (concat txs)"
    by auto
  then show ?case by (cases tx) simp_all
qed

lemma block_to_bx_block_returns:
  assumes ser: "serialize_short_ids_into_bytes ext (block_short_ids ext ts (msg_txns ext B)) = Inr serialized"
    and size: "length (msg_header ext B) + length (concat (map (tx_piece ext ts) (msg_txns ext B))) + 8 < 2 ^ 64"
    and nonempty: "B \<noteq> []"
  shows "\<exists>info. block_to_bx_block ext B ts =
           Inr (le_bytes 8 (length (msg_header ext B)
                              + length (concat (map (tx_piece ext ts) (msg_txns ext B))) + 8)
                  @ msg_header ext B @ concat (map (tx_piece ext ts) (msg_txns ext B)) @ serialized,
                info)
         \<and> info_short_ids info = block_short_ids ext ts (msg_txns ext B)"
  using assms
  by (simp add: block_to_bx_block_def compress_transactions_eq Let_def pack_Q_def
        UL_ULL_SIZE_IN_BYTES_def write_pieces_zeroed le_bytes_length)

lemma known_pieces:
  "\<forall>tx \<in> set txs. tx_known ext ts tx \<Longrightarrow>
   concat (map (tx_piece ext ts) txs) = replicate (length txs) (BTC_SHORT_ID_INDICATOR ext)
   \<and> block_short_ids ext ts txs = map (\<lambda>tx. get_short_id ts (get_txid ext tx)) txs"
  by (induction txs)
     (simp_all add: tx_known_def tx_piece_def block_short_ids_def BTC_SHORT_ID_INDICATOR_AS_BYTEARRAY_def)

lemma get_bx_block_offsets_packed:
  "so < 2 ^ 64 \<Longrightarrow>
   get_bx_block_offsets (le_bytes 8 so @ rest) = Inr \<lparr>short_id_offset = so, block_begin_offset = 8\<rparr>"
  by (simp add: get_bx_block_offsets_def le_bytes_length le_value_le_bytes UL_ULL_SIZE_IN_BYTES_def)

lemma slice_in_middle:
  "length pre = a \<Longrightarrow> slice (pre @ mid @ post) a (a + length mid) = mid"
  by (simp add: slice_def)

lemma parse_bx_block_header_compressed:
  fixes rest :: bytes
  assumes wf: "well_formed_block ext B"
    and loc: "varint_local ext"
    and so: "so < 2 ^ 64"
    and bx_def: "bx = le_bytes 8 so @ msg_header ext B @ rest"
    and read: "deserialize_short_ids_from_buffer ext bx so = Inr (sids, len)"
  shows "\<exists>hi. parse_bx_block_header ext bx = Inr (hi, [msg_header ext B])
            \<and> hdr_block_offsets hi = \<lparr>short_id_offset = so, block_begin_offset = 8\<rparr>
            \<and> hdr_short_ids hi = sids
            \<and> hdr_offset hi = 8 + length (msg_header ext B)"
proof -
  let ?h = "BTC_HDR_COMMON_OFF ext + BTC_BLOCK_HDR_SIZE ext"
  let ?header = "msg_header ext B"
  from wf obtain v k where count: "btc_varint_to_int ext B ?h = Inr (v, k)"
    and len: "length ?header = ?h + k"
    by (auto simp add: well_formed_block_def split: sum.splits)
  have B: "B = ?header @ concat (msg_txns ext B)"
    using wf by (simp add: well_formed_block_def)
  have "slice B ?h (?h + k) = drop ?h ?header"
    by (subst B) (simp add: slice_def len)
  moreover have "slice bx (8 + ?h) (8 + ?h + k) = drop ?h ?header"
    by (simp add: bx_def slice_def le_bytes_length len)
  ultimately have size: "btc_varint_to_int ext bx (8 + ?h) = Inr (v, k)"
    using loc count unfolding varint_local_def by metis
  have piece: "slice bx 8 (8 + length ?header) = ?header"
    unfolding bx_def by (rule slice_in_middle) (simp add: le_bytes_length)
  have offs: "get_bx_block_offsets bx = Inr \<lparr>short_id_offset = so, block_begin_offset = 8\<rparr>"
    unfolding bx_def using so by (rule get_bx_block_offsets_packed)
  show ?thesis
    using size piece len
    by (simp add: parse_bx_block_header_def offs read Let_def add.assoc)
qed

lemma round_trip_buffer:
  assumes wf: "well_formed_block ext B"
    and size: "length B + 8 < 2 ^ 64"
    and loc: "varint_local ext"
    and known: "\<forall>tx \<in> set (msg_txns ext B). tx_known ext ts tx"
    and ser: "short_ids_serializable ext (map (\<lambda>tx. get_short_id ts (get_txid ext tx)) (msg_txns ext B))"
  shows "\<exists>bx info msg info'.
           block_to_bx_block ext B ts = Inr (bx, info)
         \<and> bx_block_to_block ext bx ts = Some (Inr (Some msg, info', [], []))
         \<and> blk_buf msg = B @ replicate 8 0"
proof -
  let ?header = "msg_header ext B"
  let ?txs = "msg_txns ext B"
  let ?n = "length ?txs"
  let ?sids = "map (\<lambda>tx. get_short_id ts (get_txid ext tx)) ?txs"
  let ?ind = "BTC_SHORT_ID_INDICATOR ext"
  let ?so = "length ?header + ?n + 8"
  from ser obtain serialized where
    written: "serialize_short_ids_into_bytes ext ?sids = Inr serialized"
    and read_back: "\<And>pre. \<exists>len. deserialize_short_ids_from_buffer ext (pre @ serialized) (length pre) = Inr (?sids, len)"
    unfolding short_ids_serializable_def by blast
  have pieces: "concat (map (tx_piece ext ts) ?txs) = replicate ?n ?ind"
    and sids: "block_short_ids ext ts ?txs = ?sids"
    using known_pieces [OF known] by simp_all
  have B: "B = ?header @ concat ?txs"
    using wf by (simp add: well_formed_block_def)
  have "?n \<le> length (concat ?txs)"
    using wf by (simp add: well_formed_block_def transactions_counted)
  moreover have "length B = length ?header + length (concat ?txs)"
    by (subst B) simp
  ultimately have so: "?so < 2 ^ 64"
    using size by simp
  have nonempty: "B \<noteq> []"
    using wf by (simp add: well_formed_block_def)
  define bx where "bx = le_bytes 8 ?so @ ?header @ replicate ?n ?ind @ serialized"
  from block_to_bx_block_returns [of ext ts B serialized] written so nonempty
  obtain info where compressed: "block_to_bx_block ext B ts = Inr (bx, info)"
    by (auto simp add: pieces sids bx_def)
  have bx': "bx = le_bytes 8 ?so @ ?header @ (replicate ?n ?ind @ serialized)"
    by (simp add: bx_def)
  from read_back [of "le_bytes 8 ?so @ ?header @ replicate ?n ?ind"]
  obtain len where read: "deserialize_short_ids_from_buffer ext bx ?so = Inr (?sids, len)"
    by (auto simp add: bx_def le_bytes_length add.commute add.left_commute)
  from parse_bx_block_header_compressed [OF wf loc so bx' read]
  obtain hi where header: "parse_bx_block_header ext bx = Inr (hi, [?header])"
    and hi: "hdr_block_offsets hi = \<lparr>short_id_offset = ?so, block_begin_offset = 8\<rparr>"
            "hdr_short_ids hi = ?sids" "hdr_offset hi = 8 + length ?header"
    by auto
  have missing: "get_missing_transactions ts ?sids = (False, [], [])"
    using known by (rule get_missing_transactions_known)
  have run: "take ?n (drop (8 + length ?header) bx) = replicate ?n ?ind"
    by (simp add: bx_def le_bytes_length)
  have walked: "parse_transactions_loop ext (hdr_block_hash hi) bx ?sids (hdr_block_offsets hi) ts
                  (8 + length ?header) 0 (8 + length ?header) [?header]
                = Some (Inr ([?header] @ ?txs, 8 + length ?header + length (concat ?txs)))"
    by (rule loop_all_known [where consumed = "[]"]) (use known run hi in simp_all)
  have total: "8 + length ?header + length (concat ?txs) = length B + 8"
    by (subst (2) B) simp
  have built: "blk_buf (fst (build_btc_block ext ([?header] @ ?txs) (length B + 8))) = B @ replicate 8 0"
  proof -
    have whole: "concat ([?header] @ ?txs) = B"
      using B by simp
    have "fst (write_pieces (replicate (length B + 8) 0) 0 ([?header] @ ?txs))
            = concat ([?header] @ ?txs) @ replicate (length B + 8 - length (concat ([?header] @ ?txs))) 0"
      by (simp only: write_pieces_zeroed fst_conv)
    then have "fst (write_pieces (replicate (length B + 8) 0) 0 ([?header] @ ?txs)) = B @ replicate 8 0"
      by (simp only: whole) simp
    then show ?thesis
      by (simp only: build_btc_block_def BlockBtcMessage_def Let_def fst_conv BlockMessage.simps)
  qed
  have "bx_block_to_block ext bx ts =
          Some (Inr (Some (fst (build_btc_block ext ([?header] @ ?txs) (length B + 8))),
                     get_block_info bx (hdr_block_hash hi) ?sids (hdr_txn_count hi)
                       (Some (fst (build_btc_block ext ([?header] @ ?txs) (length B + 8)))),
                     [], []))"
    using walked total
    by (simp add: bx_block_to_block_def header hi parse_bx_block_transactions_def missing Let_def)
  with compressed built show ?thesis
    by auto
qed

lemma bx_block_to_block_overflow:
  assumes header: "parse_bx_block_header ext bx = Inr (hi, pieces)"
    and nothing_missing: "fst (get_missing_transactions ts (hdr_short_ids hi)) = False"
    and run: "take k (drop (hdr_offset hi) bx) = replicate k (BTC_SHORT_ID_INDICATOR ext)"
    and until: "short_id_offset (hdr_block_offsets hi) = hdr_offset hi + k"
    and more: "length (hdr_short_ids hi) < k"
  shows "bx_block_to_block ext bx ts =
           Some (Inl (MessageConversionError (hdr_block_hash hi) BLOCK_DECOMPRESSION))"
proof -
  note none = get_missing_transactions_none [OF nothing_missing]
  have "parse_transactions_loop ext (hdr_block_hash hi) bx (hdr_short_ids hi) (hdr_block_offsets hi) ts
          (hdr_offset hi) 0 (hdr_offset hi) pieces
        = Some (Inl (btc_block_decompression_error (hdr_block_hash hi)))"
    by (rule loop_overflow [where k = k]) (use none run until more in simp_all)
  then show ?thesis
    using none
    by (simp add: bx_block_to_block_def header parse_bx_block_transactions_def
          btc_block_decompression_error_def Let_def)
qed

lemma le_bytes_numeral:
  "le_bytes (numeral k) v = of_nat (v mod 256) # le_bytes (pred_numeral k) (v div 256)"
  by (simp only: numeral_eq_Suc [of k] le_bytes.simps)

lemmas sample_ext_defs = sample_btc_ext_def sample_varint_def sample_serialize_def sample_deserialize_def
  sample_btc_block_def

lemma sample_txns: "msg_txns sample_btc_ext sample_btc_block = [[170, 187]]"
  by (simp add: sample_ext_defs)

lemma sample_header: "msg_header sample_btc_ext sample_btc_block = replicate 104 0 @ [1]"
  by (simp add: sample_ext_defs)

lemma sample_well_formed: "well_formed_block sample_btc_ext sample_btc_block"
  by (simp add: well_formed_block_def sample_txns sample_header) (simp add: sample_ext_defs)

lemma sample_varint_local: "varint_local sample_btc_ext"
  unfolding varint_local_def
  by (auto simp add: sample_btc_ext_def sample_varint_def slice_def split: list.splits)

lemma sample_serializable: "short_ids_serializable sample_btc_ext [7]"
  unfolding short_ids_serializable_def
  by (simp add: sample_btc_ext_def sample_serialize_def sample_deserialize_def le_bytes_numeral slice_def)

lemma sample_compressed:
  "get_short_id ts [170, 187] = 7 \<Longrightarrow>
   block_to_bx_block sample_btc_ext sample_btc_block ts =
     Inr (sample_bx_block,
          \<lparr>info_block_hash = [0], info_short_ids = [7], info_txn_count = 1,
           info_original_size = 107, info_compressed_size = 122\<rparr>)"
  apply (simp add: block_to_bx_block_def sample_txns sample_header Let_def)
  apply (simp add: sample_ext_defs NULL_TX_SID_def BTC_SHORT_ID_INDICATOR_AS_BYTEARRAY_def
      UL_ULL_SIZE_IN_BYTES_def pack_Q_def le_bytes_numeral write_pieces_zeroed sample_bx_block_def)
  done

lemma sample_short_ids:
  "get_short_id known_tx_service [170, 187] = 7" "get_short_id sid_only_tx_service [170, 187] = 7"
  by (simp_all add: get_short_id_def known_tx_service_def sid_only_tx_service_def)

lemma sample_decompressed_sid_only:
  "bx_block_to_block sample_btc_ext sample_bx_block sid_only_tx_service
   = Some (Inr (None,
        \<lparr>info_block_hash = [0], info_short_ids = [7], info_txn_count = 1,
         info_original_size = 0, info_compressed_size = 122\<rparr>, [], [[170, 187]]))"
  by (simp add: bx_block_to_block_def parse_bx_block_header_def get_bx_block_offsets_def
        parse_bx_block_transactions_def get_block_info_def sample_bx_block_def
        sample_btc_ext_def sample_varint_def sample_deserialize_def sid_only_tx_service_def
        UL_ULL_SIZE_IN_BYTES_def slice_def Let_def)

lemma sample_tx_known: "\<forall>tx \<in> set (msg_txns sample_btc_ext sample_btc_block). tx_known sample_btc_ext known_tx_service tx"
  by (simp add: sample_txns tx_known_def) (simp add: sample_btc_ext_def known_tx_service_def get_short_id_def NULL_TX_SID_def)

text \<open>
  C1, as the claim states it, fails when a transaction of the block has a short id in the
  transaction service but no contents yet: compression replaces the transaction by its
  short id, and decompression returns no block and reports the transaction's hash as
  unknown.
\<close>

theorem bx_block_round_trip_counterexample:
  "msg_txns sample_btc_ext sample_btc_block = [[170, 187]]
   \<and> get_short_id sid_only_tx_service (get_txid sample_btc_ext [170, 187]) = 7
   \<and> block_to_bx_block sample_btc_ext sample_btc_block sid_only_tx_service =
        Inr (sample_bx_block,
             \<lparr>info_block_hash = [0], info_short_ids = [7], info_txn_count = 1,
              info_original_size = 107, info_compressed_size = 122\<rparr>)
   \<and> bx_block_to_block sample_btc_ext sample_bx_block sid_only_tx_service =
        Some (Inr (None,
          \<lparr>info_block_hash = [0], info_short_ids = [7], info_txn_count = 1,
           info_original_size = 0, info_compressed_size = 122\<rparr>, [], [[170, 187]]))"
  by (simp add: sample_txns sample_compressed sample_short_ids sample_decompressed_sid_only)
     (simp add: get_short_id_def sid_only_tx_service_def sample_btc_ext_def)

text \<open>
  C1, amended. For a well-formed Bitcoin block \<open>B\<close> of fewer than \<open>2^64 - 8\<close> bytes all of
  whose transactions are known to the transaction service with their contents (the hash
  has a short id, the short id leads back to the hash, and the stored contents are the
  transaction's bytes), with a varint reader that depends on the varint's bytes only and
  short ids that the short-id serializer writes and reads back: \<open>block_to_bx_block\<close>
  returns a bx-block, \<open>bx_block_to_block\<close> on it returns a block message with empty
  \<open>unknown_sids\<close> and \<open>unknown_hashes\<close>, and the first \<open>len(B)\<close> bytes of that message's
  buffer are \<open>B\<close>, byte for byte. (\<open>round_trip_buffer\<close> gives the whole buffer.)
\<close>

theorem bx_block_round_trip:
  assumes "well_formed_block ext B"
    and "length B + 8 < 2 ^ 64"
    and "varint_local ext"
    and "\<forall>tx \<in> set (msg_txns ext B). tx_known ext ts tx"
    and "short_ids_serializable ext (map (\<lambda>tx. get_short_id ts (get_txid ext tx)) (msg_txns ext B))"
  shows "\<exists>bx info msg info'.
           block_to_bx_block ext B ts = Inr (bx, info)
         \<and> bx_block_to_block ext bx ts = Some (Inr (Some msg, info', [], []))
         \<and> take (length B) (blk_buf msg) = B"
proof -
  from round_trip_buffer [OF assms] obtain bx info msg info' where
    "block_to_bx_block ext B ts = Inr (bx, info)"
    "bx_block_to_block ext bx ts = Some (Inr (Some msg, info', [], []))"
    "blk_buf msg = B @ replicate 8 0"
    by blast
  then show ?thesis
    by auto
qed

theorem bx_block_round_trip_witness:
  "well_formed_block sample_btc_ext sample_btc_block
   \<and> length sample_btc_block + 8 < 2 ^ 64
   \<and> varint_local sample_btc_ext
   \<and> msg_txns sample_btc_ext sample_btc_block = [[170, 187]]
   \<and> tx_known sample_btc_ext known_tx_service [170, 187]
   \<and> get_short_id known_tx_service (get_txid sample_btc_ext [170, 187]) = 7
   \<and> short_ids_serializable sample_btc_ext [7]
   \<and> (\<exists>msg info'.
         bx_block_to_block sample_btc_ext sample_bx_block known_tx_service
           = Some (Inr (Some msg, info', [], []))
       \<and> take 107 (blk_buf msg) = sample_btc_block)"
proof -
  have size: "length sample_btc_block = 107"
    by (simp add: sample_btc_block_def)
  then have bound: "length sample_btc_block + 8 < 2 ^ 64"
    by simp
  have sid: "get_short_id known_tx_service (get_txid sample_btc_ext [170, 187]) = 7"
    by (simp add: sample_short_ids sample_btc_ext_def)
  then have serializable:
    "short_ids_serializable sample_btc_ext
       (map (\<lambda>tx. get_short_id known_tx_service (get_txid sample_btc_ext tx))
          (msg_txns sample_btc_ext sample_btc_block))"
    by (simp add: sample_txns sample_serializable)
  from bx_block_round_trip [OF sample_well_formed bound sample_varint_local sample_tx_known serializable]
  obtain bx info msg info' where
    "block_to_bx_block sample_btc_ext sample_btc_block known_tx_service = Inr (bx, info)"
    "bx_block_to_block sample_btc_ext bx known_tx_service = Some (Inr (Some msg, info', [], []))"
    "take (length sample_btc_block) (blk_buf msg) = sample_btc_block"
    by blast
  then have "\<exists>msg info'.
         bx_block_to_block sample_btc_ext sample_bx_block known_tx_service
           = Some (Inr (Some msg, info', [], []))
       \<and> take 107 (blk_buf msg) = sample_btc_block"
    by (auto simp add: sample_compressed sample_short_ids size)
  then show ?thesis
    using sample_well_formed sample_tx_known sample_varint_local sample_serializable bound sid
    by (simp add: sample_txns)
qed

lemma overflow_header:
  "parse_bx_block_header sample_btc_ext overflow_bx_block =
     Inr (\<lparr>hdr_block_offsets = \<lparr>short_id_offset = 115, block_begin_offset = 8\<rparr>,
            hdr_short_ids = [7], hdr_short_ids_len = 8, hdr_block_hash = [0],
            hdr_offset = 113, hdr_txn_count = 1\<rparr>,
          [replicate 104 0 @ [1]])"
  by (simp add: parse_bx_block_header_def get_bx_block_offsets_def overflow_bx_block_def
        sample_btc_ext_def sample_varint_def sample_deserialize_def
        UL_ULL_SIZE_IN_BYTES_def slice_def Let_def)

lemma overflow_run:
  "take 2 (drop 113 overflow_bx_block) = replicate 2 (BTC_SHORT_ID_INDICATOR sample_btc_ext)"
proof -
  have "replicate 2 (255 :: byte) = [255, 255]"
    by (simp add: numeral_2_eq_2)
  moreover have "take 2 (drop 113 overflow_bx_block) = [255, 255]"
    by (simp add: overflow_bx_block_def)
  ultimately show ?thesis
    by (simp add: sample_btc_ext_def)
qed

lemma overflow_position:
  "length overflow_bx_block = 123" "overflow_bx_block ! 114 = 255"
  by (simp_all add: overflow_bx_block_def nth_append)

lemma known_not_missing: "get_missing_transactions known_tx_service [7] = (False, [], [])"
  by (simp add: known_tx_service_def)

lemma overflow_recoverable:
  "bx_block_to_block sample_btc_ext overflow_bx_block sid_only_tx_service =
     Some (Inr (None,
        \<lparr>info_block_hash = [0], info_short_ids = [7], info_txn_count = 1,
         info_original_size = 0, info_compressed_size = 123\<rparr>, [], [[170, 187]]))"
  by (simp add: bx_block_to_block_def overflow_header parse_bx_block_transactions_def get_block_info_def
        sid_only_tx_service_def overflow_position Let_def)

lemma overflow_raises:
  "bx_block_to_block sample_btc_ext overflow_bx_block known_tx_service =
     Some (Inl (MessageConversionError [0] BLOCK_DECOMPRESSION))"
  using bx_block_to_block_overflow [OF overflow_header, of known_tx_service 2]
  by (simp add: overflow_run known_tx_service_def)

lemma learned: "set_transaction_contents [170, 187] [170, 187] sid_only_tx_service = known_tx_service"
  by (simp add: set_transaction_contents_def sid_only_tx_service_def known_tx_service_def)

lemma handle_decrypted_block_failure:
  "node_conn n \<noteq> None \<or> remote_node_conn n \<noteq> None \<Longrightarrow>
   conv_bx_block_to_block (message_converter n) bx (tx_service n) = Inl (MessageConversionError h t) \<Longrightarrow>
   handle_decrypted_block bx c encrypted_block_hash recovered n =
     Inr (n\<lparr>effects := effects n @
            [BlockStatEvent h BLOCK_CONVERSION_FAILED, OnBlockCleanedUp h,
             Log WARNING ''Failed to decompress block'']\<rparr>)"
  by (auto simp add: handle_decrypted_block_def add_effect_def)

lemmas handler_defs = handle_decrypted_block_def btc_node_def btc_converter_def
     sample_node_def handle_decompressed_block_def Let_def cancel_hold_timeout_def add_effect_def
     in_queue_def add_block_def start_transaction_recovery_def broadcast_def push_def sample_short_ids
     relay_conn_def gateway_conn_def RELAY_ALL_def

lemma awaiting_fields:
  "node_conn awaiting_node = Some blockchain_conn"
  "message_converter awaiting_node = btc_converter sample_btc_ext"
  "tx_service awaiting_node = sid_only_tx_service"
  "block_recovery_service awaiting_node =
     \<lparr>blocks_awaiting_recovery =
        [\<lparr>rec_block_hash = [0], rec_bx_block = overflow_bx_block, unknown_short_ids = [],
          unknown_transaction_hashes = [[170, 187]], recovery_start_time = 100\<rparr>],
      recovery_attempts_by_block = (\<lambda>h. 0), recovered_blocks = []\<rparr>"
  "block_queuing_service awaiting_node =
     [\<lparr>q_block_hash = [0], q_block_msg = None, q_waiting_for_recovery = True\<rparr>]"
  by (simp_all add: awaiting_node_def overflow_recoverable handler_defs)

text \<open>
  C7, as the claim states it, fails in its last part: the caller evicts no recovery
  state. The bx-block with two indicator bytes and one short id arrives while the
  contents of the transaction are unknown: it is reported as recoverable, a recovery
  record is created and a placeholder is queued. Once the contents are known, the
  recovered block is handled again: the decompression raises the hard failure, and the
  handler that catches it leaves the recovery record and the queued placeholder of the
  block where they are.
\<close>

theorem decompression_index_overflow_counterexample:
  "bx_block_to_block sample_btc_ext overflow_bx_block sid_only_tx_service =
     Some (Inr (None,
        \<lparr>info_block_hash = [0], info_short_ids = [7], info_txn_count = 1,
         info_original_size = 0, info_compressed_size = 123\<rparr>, [], [[170, 187]]))
   \<and> handle_decrypted_block overflow_bx_block relay_conn None False
         (btc_node\<lparr>tx_service := sid_only_tx_service\<rparr>) = Inr awaiting_node
   \<and> block_recovery_service awaiting_node =
        \<lparr>blocks_awaiting_recovery =
           [\<lparr>rec_block_hash = [0], rec_bx_block = overflow_bx_block, unknown_short_ids = [],
             unknown_transaction_hashes = [[170, 187]], recovery_start_time = 100\<rparr>],
         recovery_attempts_by_block = (\<lambda>h. 0), recovered_blocks = []\<rparr>
   \<and> block_queuing_service awaiting_node =
        [\<lparr>q_block_hash = [0], q_block_msg = None, q_waiting_for_recovery = True\<rparr>]
   \<and> set_transaction_contents [170, 187] [170, 187] (tx_service awaiting_node) = known_tx_service
   \<and> bx_block_to_block sample_btc_ext overflow_bx_block known_tx_service =
        Some (Inl (MessageConversionError [0] BLOCK_DECOMPRESSION))
   \<and> handle_decrypted_block overflow_bx_block relay_conn None True
         (awaiting_node\<lparr>tx_service := known_tx_service\<rparr>) =
        Inr (awaiting_node\<lparr>tx_service := known_tx_service,
               effects := effects awaiting_node @
                 [BlockStatEvent [0] BLOCK_CONVERSION_FAILED, OnBlockCleanedUp [0],
                  Log WARNING ''Failed to decompress block'']\<rparr>)
   \<and> in_queue [0] (block_queuing_service
         (awaiting_node\<lparr>tx_service := known_tx_service,
            effects := effects awaiting_node @
              [BlockStatEvent [0] BLOCK_CONVERSION_FAILED, OnBlockCleanedUp [0],
               Log WARNING ''Failed to decompress block'']\<rparr>))
   \<and> map rec_block_hash (blocks_awaiting_recovery (block_recovery_service
         (awaiting_node\<lparr>tx_service := known_tx_service,
            effects := effects awaiting_node @
              [BlockStatEvent [0] BLOCK_CONVERSION_FAILED, OnBlockCleanedUp [0],
               Log WARNING ''Failed to decompress block'']\<rparr>))) = [[0]]"
proof -
  have first: "handle_decrypted_block overflow_bx_block relay_conn None False
         (btc_node\<lparr>tx_service := sid_only_tx_service\<rparr>) = Inr awaiting_node"
    by (simp add: awaiting_node_def overflow_recoverable handle_decrypted_block_def btc_node_def
          btc_converter_def sample_node_def)
  have "handle_decrypted_block overflow_bx_block relay_conn None True
         (awaiting_node\<lparr>tx_service := known_tx_service\<rparr>) =
        Inr ((awaiting_node\<lparr>tx_service := known_tx_service\<rparr>)
              \<lparr>effects := effects (awaiting_node\<lparr>tx_service := known_tx_service\<rparr>) @
                 [BlockStatEvent [0] BLOCK_CONVERSION_FAILED, OnBlockCleanedUp [0],
                  Log WARNING ''Failed to decompress block'']\<rparr>)"
    by (rule handle_decrypted_block_failure [where t = BLOCK_DECOMPRESSION])
       (simp_all add: awaiting_fields btc_converter_def overflow_raises)
  then have second: "handle_decrypted_block overflow_bx_block relay_conn None True
         (awaiting_node\<lparr>tx_service := known_tx_service\<rparr>) =
        Inr (awaiting_node\<lparr>tx_service := known_tx_service,
               effects := effects awaiting_node @
                 [BlockStatEvent [0] BLOCK_CONVERSION_FAILED, OnBlockCleanedUp [0],
                  Log WARNING ''Failed to decompress block'']\<rparr>)"
    by simp
  show ?thesis
    by (simp add: overflow_recoverable overflow_raises first second awaiting_fields learned in_queue_def)
qed

text \<open>
  C7, amended. In the walk of \<open>parse_bx_block_transactions\<close>, an indicator byte met when
  \<open>short_tx_index\<close> has reached the length of the parsed short-ids array raises the
  decompression error carrying the block hash. Hence \<open>bx_block_to_block\<close> on a bx-block
  whose short ids are all known with contents, and whose body is a run of more indicator
  bytes than it has short ids, raises that error with the hash of the block header instead
  of returning unknown short ids or hashes. \<open>_handle_decrypted_block\<close>, catching a
  conversion error of the converter, records the failure, calls \<open>on_block_cleaned_up\<close> of
  the transaction service with the block hash of the error, logs a warning and returns:
  no other field of the node changes, so the block recovery service and the block queuing
  service are left as they are.
\<close>

theorem decompression_index_overflow:
  "(offset < short_id_offset bo \<and> offset < length bx \<and> bx ! offset = BTC_SHORT_ID_INDICATOR ext
      \<and> length sids \<le> idx \<longrightarrow>
      parse_transactions_loop ext h bx sids bo ts offset idx out pieces
        = Some (Inl (MessageConversionError h BLOCK_DECOMPRESSION)))
   \<and> (parse_bx_block_header ext bx = Inr (hi, header_pieces)
        \<and> fst (get_missing_transactions ts (hdr_short_ids hi)) = False
        \<and> take k (drop (hdr_offset hi) bx) = replicate k (BTC_SHORT_ID_INDICATOR ext)
        \<and> short_id_offset (hdr_block_offsets hi) = hdr_offset hi + k
        \<and> length (hdr_short_ids hi) < k \<longrightarrow>
        bx_block_to_block ext bx ts
          = Some (Inl (MessageConversionError (hdr_block_hash hi) BLOCK_DECOMPRESSION)))
   \<and> ((node_conn n \<noteq> None \<or> remote_node_conn n \<noteq> None)
        \<and> conv_bx_block_to_block (message_converter n) bx (tx_service n)
            = Inl (MessageConversionError h' t) \<longrightarrow>
        handle_decrypted_block bx c encrypted_block_hash recovered n =
          Inr (n\<lparr>effects := effects n @
                 [BlockStatEvent h' BLOCK_CONVERSION_FAILED, OnBlockCleanedUp h',
                  Log WARNING ''Failed to decompress block'']\<rparr>))"
proof (intro conjI impI)
  assume "offset < short_id_offset bo \<and> offset < length bx \<and> bx ! offset = BTC_SHORT_ID_INDICATOR ext
      \<and> length sids \<le> idx"
  then show "parse_transactions_loop ext h bx sids bo ts offset idx out pieces
        = Some (Inl (MessageConversionError h BLOCK_DECOMPRESSION))"
    by (simp add: loop_unfold_indicator btc_block_decompression_error_def)
next
  assume "parse_bx_block_header ext bx = Inr (hi, header_pieces)
        \<and> fst (get_missing_transactions ts (hdr_short_ids hi)) = False
        \<and> take k (drop (hdr_offset hi) bx) = replicate k (BTC_SHORT_ID_INDICATOR ext)
        \<and> short_id_offset (hdr_block_offsets hi) = hdr_offset hi + k
        \<and> length (hdr_short_ids hi) < k"
  then show "bx_block_to_block ext bx ts
          = Some (Inl (MessageConversionError (hdr_block_hash hi) BLOCK_DECOMPRESSION))"
    by (blast intro: bx_block_to_block_overflow)
next
  assume "(node_conn n \<noteq> None \<or> remote_node_conn n \<noteq> None)
        \<and> conv_bx_block_to_block (message_converter n) bx (tx_service n)
            = Inl (MessageConversionError h' t)"
  then show "handle_decrypted_block bx c encrypted_block_hash recovered n =
          Inr (n\<lparr>effects := effects n @
                 [BlockStatEvent h' BLOCK_CONVERSION_FAILED, OnBlockCleanedUp h',
                  Log WARNING ''Failed to decompress block'']\<rparr>)"
    by (blast intro: handle_decrypted_block_failure)
qed

theorem decompression_index_overflow_witness:
  "(114 :: nat) < short_id_offset \<lparr>short_id_offset = 115, block_begin_offset = 8\<rparr>
   \<and> 114 < length overflow_bx_block
   \<and> overflow_bx_block ! 114 = BTC_SHORT_ID_INDICATOR sample_btc_ext
   \<and> length [7 :: nat] \<le> 1
   \<and> parse_transactions_loop sample_btc_ext [0] overflow_bx_block [7]
        \<lparr>short_id_offset = 115, block_begin_offset = 8\<rparr> known_tx_service 114 1 115
        [replicate 104 0 @ [1], [170, 187]]
       = Some (Inl (MessageConversionError [0] BLOCK_DECOMPRESSION))
   \<and> get_missing_transactions known_tx_service [7] = (False, [], [])
   \<and> bx_block_to_block sample_btc_ext overflow_bx_block known_tx_service
       = Some (Inl (MessageConversionError [0] BLOCK_DECOMPRESSION))
   \<and> node_conn btc_node \<noteq> None
   \<and> handle_decrypted_block overflow_bx_block relay_conn (Some [1]) False btc_node =
        Inr (btc_node\<lparr>effects :=
               [BlockStatEvent [0] BLOCK_CONVERSION_FAILED, OnBlockCleanedUp [0],
                Log WARNING ''Failed to decompress block'']\<rparr>)"
proof -
  let ?bo = "\<lparr>short_id_offset = 115, block_begin_offset = 8\<rparr>"
  let ?hi = "\<lparr>hdr_block_offsets = ?bo, hdr_short_ids = [7], hdr_short_ids_len = 8, hdr_block_hash = [0],
             hdr_offset = 113, hdr_txn_count = 1\<rparr>"
  have at_indicator:
    "(114 :: nat) < short_id_offset ?bo \<and> 114 < length overflow_bx_block
     \<and> overflow_bx_block ! 114 = BTC_SHORT_ID_INDICATOR sample_btc_ext \<and> length [7 :: nat] \<le> 1"
    by (simp add: overflow_position) (simp add: sample_btc_ext_def)
  have malformed:
    "parse_bx_block_header sample_btc_ext overflow_bx_block = Inr (?hi, [replicate 104 0 @ [1]])
     \<and> fst (get_missing_transactions known_tx_service (hdr_short_ids ?hi)) = False
     \<and> take 2 (drop (hdr_offset ?hi) overflow_bx_block) = replicate 2 (BTC_SHORT_ID_INDICATOR sample_btc_ext)
     \<and> short_id_offset (hdr_block_offsets ?hi) = hdr_offset ?hi + 2
     \<and> length (hdr_short_ids ?hi) < 2"
    by (simp add: overflow_header overflow_run known_tx_service_def)
  note loop = decompression_index_overflow [where offset = 114 and bo = ?bo and bx = overflow_bx_block and ext = sample_btc_ext
      and sids = "[7]" and idx = 1 and h = "[0]" and ts = known_tx_service and out = 115
      and pieces = "[replicate 104 0 @ [1], [170, 187]]" and hi = ?hi
      and header_pieces = "[replicate 104 0 @ [1]]" and k = 2 and n = btc_node and h' = "[0]"
      and t = BLOCK_DECOMPRESSION and c = relay_conn and encrypted_block_hash = "Some [1]"
      and recovered = False]
  from at_indicator loop
  have walked: "parse_transactions_loop sample_btc_ext [0] overflow_bx_block [7] ?bo known_tx_service
                  114 1 115 [replicate 104 0 @ [1], [170, 187]]
                = Some (Inl (MessageConversionError [0] BLOCK_DECOMPRESSION))"
    by blast
  from malformed loop
  have "bx_block_to_block sample_btc_ext overflow_bx_block known_tx_service
          = Some (Inl (MessageConversionError (hdr_block_hash ?hi) BLOCK_DECOMPRESSION))"
    by blast
  then have raised: "bx_block_to_block sample_btc_ext overflow_bx_block known_tx_service
          = Some (Inl (MessageConversionError [0] BLOCK_DECOMPRESSION))"
    by simp
  then have caught:
    "(node_conn btc_node \<noteq> None \<or> remote_node_conn btc_node \<noteq> None)
     \<and> conv_bx_block_to_block (message_converter btc_node) overflow_bx_block (tx_service btc_node)
         = Inl (MessageConversionError [0] BLOCK_DECOMPRESSION)"
    by (simp add: btc_node_def btc_converter_def sample_node_def)
  with loop
  have "handle_decrypted_block overflow_bx_block relay_conn (Some [1]) False btc_node =
          Inr (btc_node\<lparr>effects := effects btc_node @
                 [BlockStatEvent [0] BLOCK_CONVERSION_FAILED, OnBlockCleanedUp [0],
                  Log WARNING ''Failed to decompress block'']\<rparr>)"
    by blast
  then have evicted: "handle_decrypted_block overflow_bx_block relay_conn (Some [1]) False btc_node =
        Inr (btc_node\<lparr>effects :=
               [BlockStatEvent [0] BLOCK_CONVERSION_FAILED, OnBlockCleanedUp [0],
                Log WARNING ''Failed to decompress block'']\<rparr>)"
    by (simp add: btc_node_def sample_node_def)
  have "node_conn btc_node \<noteq> None"
    by (simp add: btc_node_def sample_node_def)
  with at_indicator walked raised evicted known_not_missing show ?thesis
    by simp
qed

subsection \<open>Holds\<close>

lemmas run_defs = queue_block_for_processing_def place_hold_def holds_add_def holds_cleanup_def holds_expired_def
  sample_block_def sample_node_def add_effect_def broadcast_def Let_def register_alarm_def new_BlockHold_def
  batched_register_approx_alarm_def fire_alarm_def unregister_alarm_def cancel_hold_timeout_def
  gateway_conn_def relay_conn_def blockchain_conn_def RELAY_ALL_def

lemmas sample_defs = held_node_def queue_block_for_processing_def place_hold_def holds_add_def sample_block_def
  sample_node_def add_effect_def broadcast_def Let_def register_alarm_def new_BlockHold_def
  batched_register_approx_alarm_def

lemma held_hold:
  "holds held_node [1] =
     Some \<lparr>hold_message_time = 100, holding_connection = gateway_conn, block_message = Some sample_block,
       alarm = Some 1, held_connection = None, hold_connection = Some blockchain_conn\<rparr>"
  by (simp add: sample_defs)

lemma held_alarms: "map fst (alarms (alarm_queue held_node)) = [0, 1]"
  by (simp add: sample_defs)


text \<open>
  C9. For a block hash that is already in the \<open>blocks_seen\<close> cache, \<open>place_hold\<close> only
  records the \<open>BLOCK_HOLD_REQUESTED\<close> statistics event: the map of holds is unchanged (no
  hold is created for the hash) and nothing is broadcast, so no \<open>BlockHoldingMessage\<close>
  reaches any peer.
\<close>

theorem place_hold_block_seen:
  "block_hash \<in> blocks_seen n \<Longrightarrow>
     place_hold block_hash conn n = add_effect (BlockStatEvent block_hash BLOCK_HOLD_REQUESTED) n
     \<and> holds (place_hold block_hash conn n) = holds n
     \<and> filter is_broadcast (effects (place_hold block_hash conn n)) = filter is_broadcast (effects n)"
  by (simp add: place_hold_def add_effect_def Let_def)

theorem place_hold_block_seen_witness:
  "[1] \<in> blocks_seen (sample_node\<lparr>blocks_seen := {[1]}\<rparr>)
   \<and> holds (place_hold [1] gateway_conn (sample_node\<lparr>blocks_seen := {[1]}\<rparr>)) [1] = None
   \<and> filter is_broadcast (effects (place_hold [1] gateway_conn (sample_node\<lparr>blocks_seen := {[1]}\<rparr>))) = []"
  using place_hold_block_seen [of "[1]" "sample_node\<lparr>blocks_seen := {[1]}\<rparr>" gateway_conn]
  by (simp add: sample_node_def add_effect_def)

lemma place_hold_not_propagating:
  "filter compressed_or_propagated (effects (place_hold h c n)) = filter compressed_or_propagated (effects n)"
  by (simp add: place_hold_def holds_add_def add_effect_def broadcast_def Let_def)

lemma place_hold_keeps_hold: "holds n h = Some hold \<Longrightarrow> holds (place_hold h c n) h = Some hold"
  by (simp add: place_hold_def add_effect_def broadcast_def Let_def)

lemma place_holds_not_propagating:
  "filter compressed_or_propagated (effects (place_holds h cs n)) = filter compressed_or_propagated (effects n)"
  by (induction cs arbitrary: n) (simp_all add: place_hold_not_propagating)

lemma place_holds_keeps_hold: "holds n h = Some hold \<Longrightarrow> holds (place_holds h cs n) h = Some hold"
  by (induction cs arbitrary: n) (simp_all add: place_hold_keeps_hold)

lemma cancel_hold_timeout_removes: "holds (cancel_hold_timeout h c n) h = None"
  by (simp add: cancel_hold_timeout_def add_effect_def Let_def split: option.splits)

lemma cancel_hold_timeout_no_hold: "holds n h = None \<Longrightarrow> cancel_hold_timeout h c n = n"
  by (simp add: cancel_hold_timeout_def)

lemma cancel_hold_timeout_not_propagating:
  "filter compressed_or_propagated (effects (cancel_hold_timeout h c n)) = filter compressed_or_propagated (effects n)"
  by (simp add: cancel_hold_timeout_def add_effect_def Let_def split: option.splits)

lemma cancel_hold_timeout_unregisters:
  "holds n h = Some hold \<Longrightarrow> alarm hold = Some a \<Longrightarrow>
     a \<notin> fst ` set (alarms (alarm_queue (cancel_hold_timeout h c n)))"
  by (auto simp add: cancel_hold_timeout_def add_effect_def unregister_alarm_def Let_def)

lemma fire_alarm_unregistered:
  "a \<notin> fst ` set (alarms (alarm_queue n)) \<Longrightarrow> fire_alarm a n = Inr n"
  by (simp add: fire_alarm_def map_of_eq_None_iff [THEN iffD2])

text \<open>
  C4, as the claim states it, fails for a hold-timeout alarm whose hold has expired from
  the dictionary of holds. In the run of \<open>expired_hold_node\<close> the sweep removes the hold on block \<open>[1]\<close>
  and leaves its alarm registered. A later \<open>place_hold\<close> creates a new hold, and
  \<open>cancel_hold_timeout\<close> removes that one: the alarm of the expired hold stays registered,
  and when it fires the block that was stored on the expired hold is compressed and
  propagated.
\<close>

theorem cancel_hold_timeout_counterexample:
  "holds expired_hold_node [1] = None
   \<and> alarms (alarm_queue expired_hold_node) =
        [(1, \<lparr>fire_time = 150, slop = None,
               callback = HoldingTimeout [1]
                 \<lparr>hold_message_time = 100, holding_connection = gateway_conn,
                  block_message = Some sample_block, alarm = Some 1, held_connection = None,
                  hold_connection = Some blockchain_conn\<rparr>\<rparr>)]
   \<and> lifted_node =
        cancel_hold_timeout [1] relay_conn (place_holds [1] [gateway_conn] (expired_hold_node\<lparr>clock := 141\<rparr>))
   \<and> holds lifted_node [1] = None
   \<and> map fst (alarms (alarm_queue lifted_node)) = [1, 2]
   \<and> filter compressed_or_propagated (effects lifted_node) = []
   \<and> map_sum id (filter compressed_or_propagated \<circ> effects) (fire_alarm 1 (lifted_node\<lparr>clock := 150\<rparr>)) =
        Inr [BlockStatEvent [1] BLOCK_COMPRESSED,
             PropagateBlockToNetwork [1, 2, 3] blockchain_conn
               \<lparr>info_block_hash = [1], info_short_ids = [], info_txn_count = 0,
                 info_original_size = 3, info_compressed_size = 3\<rparr>,
             TrackSeenShortIdsDelayed [1] []]"
  apply (intro conjI)
        apply (simp add: expired_hold_node_def run_defs)
       apply (simp add: expired_hold_node_def run_defs)
      apply (simp add: lifted_node_def)
     apply (simp add: lifted_node_def expired_hold_node_def run_defs)
    apply (simp add: lifted_node_def expired_hold_node_def run_defs)
   apply (simp add: lifted_node_def expired_hold_node_def run_defs)
  apply (simp add: lifted_node_def expired_hold_node_def run_defs holding_timeout_def process_and_broadcast_block_def
     process_and_broadcast_compressed_block_def sample_converter_def)
  done

text \<open>
  C4, amended. After any run of \<open>place_hold\<close> calls for a hash \<open>h\<close> followed by
  \<open>cancel_hold_timeout\<close> for \<open>h\<close>: the map of holds has no entry for \<open>h\<close>; the run of
  \<open>place_hold\<close> calls does not replace a hold that was in the map, and the alarm recorded
  on the hold that the map had for \<open>h\<close> (armed when the local block was stored on it) is
  no longer registered, so that firing it does nothing; the calls add no compression or
  propagation; a further \<open>cancel_hold_timeout\<close> leaves the node as it is.
\<close>

theorem cancel_hold_timeout_after_place_holds:
  "(let n1 = place_holds h cs n; n2 = cancel_hold_timeout h c n1 in
      holds n2 h = None
    \<and> (\<forall>hold. holds n h = Some hold \<longrightarrow> holds n1 h = Some hold)
    \<and> (\<forall>hold a. holds n1 h = Some hold \<and> alarm hold = Some a \<longrightarrow>
          a \<notin> fst ` set (alarms (alarm_queue n2)) \<and> fire_alarm a n2 = Inr n2)
    \<and> filter compressed_or_propagated (effects n2) = filter compressed_or_propagated (effects n)
    \<and> cancel_hold_timeout h c' n2 = n2)"
  unfolding Let_def
  by (intro conjI allI impI)
     (simp_all add: cancel_hold_timeout_removes place_holds_keeps_hold
        cancel_hold_timeout_unregisters fire_alarm_unregistered cancel_hold_timeout_no_hold
        cancel_hold_timeout_not_propagating place_holds_not_propagating)

theorem cancel_hold_timeout_after_place_holds_witness:
  "holds held_node [1] =
     Some \<lparr>hold_message_time = 100, holding_connection = gateway_conn, block_message = Some sample_block,
       alarm = Some 1, held_connection = None, hold_connection = Some blockchain_conn\<rparr>
   \<and> map fst (alarms (alarm_queue held_node)) = [0, 1]
   \<and> holds (cancel_hold_timeout [1] relay_conn (place_holds [1] [relay_conn, gateway_conn] held_node)) [1] = None
   \<and> 1 \<notin> fst ` set (alarms (alarm_queue
            (cancel_hold_timeout [1] relay_conn (place_holds [1] [relay_conn, gateway_conn] held_node))))
   \<and> fire_alarm 1 (cancel_hold_timeout [1] relay_conn (place_holds [1] [relay_conn, gateway_conn] held_node))
       = Inr (cancel_hold_timeout [1] relay_conn (place_holds [1] [relay_conn, gateway_conn] held_node))
   \<and> filter compressed_or_propagated
        (effects (cancel_hold_timeout [1] relay_conn (place_holds [1] [relay_conn, gateway_conn] held_node))) = []"
proof -
  let ?hold = "\<lparr>hold_message_time = 100, holding_connection = gateway_conn, block_message = Some sample_block,
       alarm = Some 1, held_connection = None, hold_connection = Some blockchain_conn\<rparr>"
  let ?n1 = "place_holds [1] [relay_conn, gateway_conn] held_node"
  let ?n2 = "cancel_hold_timeout [1] relay_conn ?n1"
  note cancelled = cancel_hold_timeout_after_place_holds
      [of "[1]" "[relay_conn, gateway_conn]" held_node relay_conn relay_conn, unfolded Let_def]
  have kept: "holds ?n1 [1] = Some ?hold"
    using cancelled held_hold by blast
  have "alarm ?hold = Some 1"
    by simp
  with kept cancelled have "1 \<notin> fst ` set (alarms (alarm_queue ?n2)) \<and> fire_alarm 1 ?n2 = Inr ?n2"
    by blast
  moreover from cancelled have "holds ?n2 [1] = None"
    by blast
  moreover have "filter compressed_or_propagated (effects held_node) = []"
    by (simp add: sample_defs)
  with cancelled have "filter compressed_or_propagated (effects ?n2) = []"
    by simp
  ultimately show ?thesis
    using held_hold held_alarms by simp
qed










subsection \<open>Recovery retries\<close>


lemma cancel_recovery_for_block_removes:
  "\<forall>r \<in> set (blocks_awaiting_recovery (cancel_recovery_for_block h rs)). rec_block_hash r \<noteq> h"
  by (simp add: cancel_recovery_for_block_def)






subsection \<open>Encrypted blocks from the BDN\<close>

text \<open>
  C6. \<open>process_block_broadcast\<close> on an encrypted broadcast message, after its statistics
  event and the node's handling-started bookkeeping call: when the message's block hash
  differs from the double SHA-256 of the ciphertext, the message is dropped with a warning
  and no field of the node other than the record of outward calls changes (the ciphertext
  is not stored, nothing is decrypted, no \<open>BlockReceivedMessage\<close> is sent). When the hashes
  agree and a key is stored for the hash, the ciphertext is decrypted with it at once and
  the plaintext goes to \<open>_handle_decrypted_block\<close> (a failed decryption is recorded). When
  no key is stored, the ciphertext is stored and a \<open>BlockReceivedMessage\<close> is broadcast to
  the gateway peers.
\<close>

theorem process_block_broadcast_encrypted:
  "bcast_is_encrypted msg \<Longrightarrow>
   (let h = bcast_block_hash msg; blob = bcast_blob msg;
        received = [BlockStatEvent h ENC_BLOCK_RECEIVED_BY_GATEWAY_FROM_NETWORK,
                    TrackBlockFromBdnHandlingStarted h (peer_desc c)]
    in (h \<noteq> double_sha256 n blob \<longrightarrow>
          process_block_broadcast msg c n =
            Inr (n\<lparr>effects := effects n @ received @
                   [Log WARNING ''Received a block with inconsistent hashes from the BDN. Dropping.'']\<rparr>))
     \<and> (h = double_sha256 n blob \<longrightarrow>
          (\<forall>e k. in_progress_blocks n h = Some e \<and> enc_key e = Some k \<longrightarrow>
             process_block_broadcast msg c n =
               (case symmetric_decrypt n k blob of
                  Some block \<Rightarrow>
                    handle_decrypted_block block c (Some h) False
                      (n\<lparr>in_progress_blocks := (in_progress_blocks n)(h := None),
                          effects := effects n @ received @
                            [Log TRACE ''Already had key for received block. Sending block to node.'',
                             BlockStatEvent h ENC_BLOCK_DECRYPTED_SUCCESS]\<rparr>)
                | None \<Rightarrow>
                    Inr (n\<lparr>effects := effects n @ received @
                           [Log TRACE ''Already had key for received block. Sending block to node.'',
                            BlockStatEvent h ENC_BLOCK_DECRYPTION_ERROR]\<rparr>)))
        \<and> (\<not> has_encryption_key_for_hash (in_progress_blocks n) h \<longrightarrow>
             process_block_broadcast msg c n =
               Inr (n\<lparr>in_progress_blocks := add_ciphertext h blob (in_progress_blocks n),
                      effects := effects n @ received @
                      [Log TRACE ''Received encrypted block. Storing.'',
                       Broadcast (BlockReceivedMessage h) None False [GATEWAY],
                       BlockStatEvent h ENC_BLOCK_SENT_BLOCK_RECEIPT]\<rparr>))))"
  unfolding Let_def
  apply (intro conjI allI impI)
    apply (simp add: process_block_broadcast_def add_effect_def Let_def)
   apply (simp add: process_block_broadcast_def add_effect_def Let_def has_encryption_key_for_hash_def
      decrypt_ciphertext_def split: option.splits)
  apply (simp add: process_block_broadcast_def add_effect_def Let_def broadcast_def)
  done

theorem process_block_broadcast_encrypted_witness:
  "bcast_is_encrypted inconsistent_msg
   \<and> bcast_block_hash inconsistent_msg \<noteq> double_sha256 node_with_key (bcast_blob inconsistent_msg)
   \<and> process_block_broadcast inconsistent_msg relay_conn node_with_key =
        Inr (node_with_key\<lparr>effects :=
               [BlockStatEvent [1] ENC_BLOCK_RECEIVED_BY_GATEWAY_FROM_NETWORK,
                TrackBlockFromBdnHandlingStarted [1] ''relay'',
                Log WARNING ''Received a block with inconsistent hashes from the BDN. Dropping.'']\<rparr>)
   \<and> bcast_is_encrypted encrypted_msg
   \<and> bcast_block_hash encrypted_msg = double_sha256 node_with_key (bcast_blob encrypted_msg)
   \<and> has_encryption_key_for_hash (in_progress_blocks node_with_key) (bcast_block_hash encrypted_msg)
   \<and> process_block_broadcast encrypted_msg relay_conn node_with_key =
        handle_decrypted_block [9, 1] relay_conn (Some [1]) False
          (node_with_key\<lparr>in_progress_blocks := (\<lambda>h. None),
             effects :=
               [BlockStatEvent [1] ENC_BLOCK_RECEIVED_BY_GATEWAY_FROM_NETWORK,
                TrackBlockFromBdnHandlingStarted [1] ''relay'',
                Log TRACE ''Already had key for received block. Sending block to node.'',
                BlockStatEvent [1] ENC_BLOCK_DECRYPTED_SUCCESS]\<rparr>)
   \<and> \<not> has_encryption_key_for_hash (in_progress_blocks sample_node) (bcast_block_hash encrypted_msg)
   \<and> process_block_broadcast encrypted_msg relay_conn sample_node =
        Inr (sample_node\<lparr>in_progress_blocks := (\<lambda>h. None)([1] \<mapsto> \<lparr>ciphertext = Some [7, 9, 1], enc_key = None\<rparr>),
               effects :=
               [BlockStatEvent [1] ENC_BLOCK_RECEIVED_BY_GATEWAY_FROM_NETWORK,
                TrackBlockFromBdnHandlingStarted [1] ''relay'',
                Log TRACE ''Received encrypted block. Storing.'',
                Broadcast (BlockReceivedMessage [1]) None False [GATEWAY],
                BlockStatEvent [1] ENC_BLOCK_SENT_BLOCK_RECEIPT]\<rparr>)"
proof -
  have enc: "bcast_is_encrypted inconsistent_msg" "bcast_is_encrypted encrypted_msg"
    by (simp_all add: inconsistent_msg_def encrypted_msg_def)
  have bad: "bcast_block_hash inconsistent_msg \<noteq> double_sha256 node_with_key (bcast_blob inconsistent_msg)"
    by (simp add: inconsistent_msg_def node_with_key_def sample_node_def)
  have good: "bcast_block_hash encrypted_msg = double_sha256 node_with_key (bcast_blob encrypted_msg)"
             "bcast_block_hash encrypted_msg = double_sha256 sample_node (bcast_blob encrypted_msg)"
    by (simp_all add: encrypted_msg_def node_with_key_def sample_node_def)
  have key: "in_progress_blocks node_with_key (bcast_block_hash encrypted_msg)
               = Some \<lparr>ciphertext = None, enc_key = Some [7]\<rparr>
             \<and> enc_key \<lparr>ciphertext = None, enc_key = Some [7]\<rparr> = Some [7]"
    by (simp add: encrypted_msg_def node_with_key_def)
  have known: "has_encryption_key_for_hash (in_progress_blocks node_with_key) (bcast_block_hash encrypted_msg)"
    by (simp add: has_encryption_key_for_hash_def encrypted_msg_def node_with_key_def)
  have unknown: "\<not> has_encryption_key_for_hash (in_progress_blocks sample_node) (bcast_block_hash encrypted_msg)"
    by (simp add: has_encryption_key_for_hash_def sample_node_def)
  from bad process_block_broadcast_encrypted [OF enc(1), where n = node_with_key and c = relay_conn, unfolded Let_def]
  have "process_block_broadcast inconsistent_msg relay_conn node_with_key =
          Inr (node_with_key\<lparr>effects := effects node_with_key @
                 [BlockStatEvent (bcast_block_hash inconsistent_msg) ENC_BLOCK_RECEIVED_BY_GATEWAY_FROM_NETWORK,
                  TrackBlockFromBdnHandlingStarted (bcast_block_hash inconsistent_msg) (peer_desc relay_conn)] @
                 [Log WARNING ''Received a block with inconsistent hashes from the BDN. Dropping.'']\<rparr>)"
    by blast
  then have dropped: "process_block_broadcast inconsistent_msg relay_conn node_with_key =
        Inr (node_with_key\<lparr>effects :=
               [BlockStatEvent [1] ENC_BLOCK_RECEIVED_BY_GATEWAY_FROM_NETWORK,
                TrackBlockFromBdnHandlingStarted [1] ''relay'',
                Log WARNING ''Received a block with inconsistent hashes from the BDN. Dropping.'']\<rparr>)"
    by (simp add: inconsistent_msg_def node_with_key_def sample_node_def relay_conn_def)
  from good(1) key process_block_broadcast_encrypted [OF enc(2), where n = node_with_key and c = relay_conn, unfolded Let_def]
  have "process_block_broadcast encrypted_msg relay_conn node_with_key =
          (case symmetric_decrypt node_with_key [7] (bcast_blob encrypted_msg) of
             Some block \<Rightarrow>
               handle_decrypted_block block relay_conn (Some (bcast_block_hash encrypted_msg)) False
                 (node_with_key\<lparr>in_progress_blocks :=
                      (in_progress_blocks node_with_key)(bcast_block_hash encrypted_msg := None),
                    effects := effects node_with_key @
                      [BlockStatEvent (bcast_block_hash encrypted_msg) ENC_BLOCK_RECEIVED_BY_GATEWAY_FROM_NETWORK,
                       TrackBlockFromBdnHandlingStarted (bcast_block_hash encrypted_msg) (peer_desc relay_conn)] @
                      [Log TRACE ''Already had key for received block. Sending block to node.'',
                       BlockStatEvent (bcast_block_hash encrypted_msg) ENC_BLOCK_DECRYPTED_SUCCESS]\<rparr>)
           | None \<Rightarrow>
               Inr (node_with_key\<lparr>effects := effects node_with_key @
                      [BlockStatEvent (bcast_block_hash encrypted_msg) ENC_BLOCK_RECEIVED_BY_GATEWAY_FROM_NETWORK,
                       TrackBlockFromBdnHandlingStarted (bcast_block_hash encrypted_msg) (peer_desc relay_conn)] @
                      [Log TRACE ''Already had key for received block. Sending block to node.'',
                       BlockStatEvent (bcast_block_hash encrypted_msg) ENC_BLOCK_DECRYPTION_ERROR]\<rparr>))"
    by blast
  then have decrypted: "process_block_broadcast encrypted_msg relay_conn node_with_key =
        handle_decrypted_block [9, 1] relay_conn (Some [1]) False
          (node_with_key\<lparr>in_progress_blocks := (\<lambda>h. None),
             effects :=
               [BlockStatEvent [1] ENC_BLOCK_RECEIVED_BY_GATEWAY_FROM_NETWORK,
                TrackBlockFromBdnHandlingStarted [1] ''relay'',
                Log TRACE ''Already had key for received block. Sending block to node.'',
                BlockStatEvent [1] ENC_BLOCK_DECRYPTED_SUCCESS]\<rparr>)"
    by (simp add: encrypted_msg_def node_with_key_def sample_node_def relay_conn_def)
  from good(2) unknown process_block_broadcast_encrypted [OF enc(2), where n = sample_node and c = relay_conn, unfolded Let_def]
  have "process_block_broadcast encrypted_msg relay_conn sample_node =
          Inr (sample_node\<lparr>in_progress_blocks :=
                   add_ciphertext (bcast_block_hash encrypted_msg) (bcast_blob encrypted_msg)
                     (in_progress_blocks sample_node),
                 effects := effects sample_node @
                   [BlockStatEvent (bcast_block_hash encrypted_msg) ENC_BLOCK_RECEIVED_BY_GATEWAY_FROM_NETWORK,
                    TrackBlockFromBdnHandlingStarted (bcast_block_hash encrypted_msg) (peer_desc relay_conn)] @
                   [Log TRACE ''Received encrypted block. Storing.'',
                    Broadcast (BlockReceivedMessage (bcast_block_hash encrypted_msg)) None False [GATEWAY],
                    BlockStatEvent (bcast_block_hash encrypted_msg) ENC_BLOCK_SENT_BLOCK_RECEIPT]\<rparr>)"
    by blast
  then have stored: "process_block_broadcast encrypted_msg relay_conn sample_node =
        Inr (sample_node\<lparr>in_progress_blocks := (\<lambda>h. None)([1] \<mapsto> \<lparr>ciphertext = Some [7, 9, 1], enc_key = None\<rparr>),
               effects :=
               [BlockStatEvent [1] ENC_BLOCK_RECEIVED_BY_GATEWAY_FROM_NETWORK,
                TrackBlockFromBdnHandlingStarted [1] ''relay'',
                Log TRACE ''Received encrypted block. Storing.'',
                Broadcast (BlockReceivedMessage [1]) None False [GATEWAY],
                BlockStatEvent [1] ENC_BLOCK_SENT_BLOCK_RECEIPT]\<rparr>)"
    by (simp add: encrypted_msg_def sample_node_def relay_conn_def add_ciphertext_def)
  from enc bad good known unknown dropped decrypted stored show ?thesis
    by simp
qed

subsection \<open>Transactions from a relay\<close>

text \<open>
  C5, as the claim states it, fails on a relay connection without the
  \<open>RELAY_TRANSACTION\<close> role: the handler logs an error and returns before it looks at the
  message, so no duplicate is recorded.
\<close>

theorem msg_tx_duplicate_counterexample:
  "no_short_id (txm_short_id duplicate_tx_msg)
   \<and> has_transaction_short_id (tx_service node_with_tx) (txm_tx_hash duplicate_tx_msg)
   \<and> has_transaction_contents (tx_service node_with_tx) (txm_tx_hash duplicate_tx_msg)
   \<and> msg_tx duplicate_tx_msg block_relay_conn node_with_tx =
        Inr (node_with_tx\<lparr>effects :=
               [Log ERROR ''Received unexpected tx message on non-tx relay connection'']\<rparr>)"
  by (simp add: no_short_id_def has_transaction_short_id_def has_transaction_contents_def
        duplicate_tx_msg_def node_with_tx_def sample_node_def msg_tx_def block_relay_conn_def add_effect_def)

text \<open>
  C5, amended. On a relay connection with the \<open>RELAY_TRANSACTION\<close> role, for a message
  whose short id is absent (\<open>None\<close> or 0) and whose hash has both a short id and contents
  in the transaction service, \<open>msg_tx\<close> records the duplicate (gateway statistics, the
  ignore-seen event, a trace line) and returns: the transaction service and every other
  field of the node are unchanged, so no short id is assigned, no contents are stored and
  nothing is sent to the blockchain node.
\<close>

theorem msg_tx_duplicate:
  "RELAY_TRANSACTION \<in> set (CONNECTION_TYPE c) \<Longrightarrow>
   no_short_id (txm_short_id msg) \<Longrightarrow>
   has_transaction_short_id (tx_service n) (txm_tx_hash msg) \<Longrightarrow>
   has_transaction_contents (tx_service n) (txm_tx_hash msg) \<Longrightarrow>
   msg_tx msg c n =
     Inr (n\<lparr>effects := effects n @
            [GatewayTxStat log_duplicate_transaction_from_relay,
             TxStatEvent (txm_tx_hash msg) TX_RECEIVED_BY_GATEWAY_FROM_PEER_IGNORE_SEEN,
             Log TRACE ''Transaction has already been seen'']\<rparr>)"
  by (simp add: msg_tx_def add_effect_def Let_def)

theorem msg_tx_duplicate_witness:
  "RELAY_TRANSACTION \<in> set (CONNECTION_TYPE relay_conn)
   \<and> no_short_id (txm_short_id duplicate_tx_msg)
   \<and> has_transaction_short_id (tx_service node_with_tx) (txm_tx_hash duplicate_tx_msg)
   \<and> has_transaction_contents (tx_service node_with_tx) (txm_tx_hash duplicate_tx_msg)
   \<and> msg_tx duplicate_tx_msg relay_conn node_with_tx =
        Inr (node_with_tx\<lparr>effects :=
               [GatewayTxStat log_duplicate_transaction_from_relay,
                TxStatEvent [5] TX_RECEIVED_BY_GATEWAY_FROM_PEER_IGNORE_SEEN,
                Log TRACE ''Transaction has already been seen'']\<rparr>)"
proof -
  have gate: "RELAY_TRANSACTION \<in> set (CONNECTION_TYPE relay_conn)"
    by (simp add: relay_conn_def RELAY_ALL_def)
  have absent: "no_short_id (txm_short_id duplicate_tx_msg)"
    by (simp add: no_short_id_def duplicate_tx_msg_def)
  have sid: "has_transaction_short_id (tx_service node_with_tx) (txm_tx_hash duplicate_tx_msg)"
    by (simp add: has_transaction_short_id_def duplicate_tx_msg_def node_with_tx_def)
  have contents: "has_transaction_contents (tx_service node_with_tx) (txm_tx_hash duplicate_tx_msg)"
    by (simp add: has_transaction_contents_def duplicate_tx_msg_def node_with_tx_def)
  from msg_tx_duplicate [OF gate absent sid contents] gate absent sid contents show ?thesis
    by (simp add: duplicate_tx_msg_def node_with_tx_def sample_node_def)
qed

subsection \<open>Ethereum discovery\<close>

text \<open>
  C8. The discovery connection, constructed on a connection that is not marked for close,
  enqueues one ping message built with the node's private key and registers the pong
  timeout alarm \<open>DISCOVERY_PONG_TIMEOUT_SEC\<close> = 5 seconds ahead. On a pong the remote
  public key is recorded and the connection is closed, with \<open>_pong_received\<close> set, so
  that the timeout then does nothing. When the timeout fires with no pong received, a
  warning is logged and the connection is marked for close.
\<close>

theorem discovery_ping_pong:
  "(\<not> marked_for_close base \<longrightarrow>
      (let made = EthNodeDiscoveryConnection_init resolved base node; conn = fst made
       in (\<exists>ping. ping_message conn = Some ping \<and> outputbuf conn = outputbuf base @ [ping]
                 \<and> ping_private_key ping = eth_private_key node)
        \<and> \<not> pong_received conn \<and> \<not> marked_for_close conn
        \<and> eth_alarms (snd made) =
             eth_alarms node @ [(eth_clock node + DISCOVERY_PONG_TIMEOUT_SEC, PongTimeout)]))
   \<and> DISCOVERY_PONG_TIMEOUT_SEC = 5
   \<and> (let handled = msg_pong public_key conn node
       in remote_public_key (snd handled) = Some public_key
        \<and> pong_received (fst handled) \<and> marked_for_close (fst handled)
        \<and> pong_timeout (fst handled) = fst handled)
   \<and> (\<not> pong_received conn \<longrightarrow>
         marked_for_close (pong_timeout conn)
       \<and> discovery_log (pong_timeout conn) = discovery_log conn @
           [(WARNING, ''Pong message was not received within allocated timeout connection. Closing.'')])
   \<and> (pong_received conn \<longrightarrow> pong_timeout conn = conn)"
  by (simp add: EthNodeDiscoveryConnection_init_def send_ping_def msg_pong_def set_remote_public_key_def
        mark_for_close_def pong_timeout_def DISCOVERY_PONG_TIMEOUT_SEC_def Let_def)

theorem discovery_ping_pong_witness:
  "\<not> marked_for_close discovery_base
   \<and> outputbuf (fst (EthNodeDiscoveryConnection_init ''10.0.0.2'' discovery_base eth_node)) =
       [\<lparr>ping_private_key = [42], ping_protocol_version = 4,
         ping_listen_address = (''10.0.0.1'', 30303, 30303),
         ping_remote_address = (''10.0.0.2'', 30303, 30303), ping_expiration = 160\<rparr>]
   \<and> eth_alarms (snd (EthNodeDiscoveryConnection_init ''10.0.0.2'' discovery_base eth_node))
       = [(105, PongTimeout)]
   \<and> \<not> pong_received (fst (EthNodeDiscoveryConnection_init ''10.0.0.2'' discovery_base eth_node))
   \<and> marked_for_close
       (pong_timeout (fst (EthNodeDiscoveryConnection_init ''10.0.0.2'' discovery_base eth_node)))
   \<and> remote_public_key
       (snd (msg_pong [9] (fst (EthNodeDiscoveryConnection_init ''10.0.0.2'' discovery_base eth_node)) eth_node))
       = Some [9]
   \<and> marked_for_close
       (fst (msg_pong [9] (fst (EthNodeDiscoveryConnection_init ''10.0.0.2'' discovery_base eth_node)) eth_node))
   \<and> pong_received
       (fst (msg_pong [9] (fst (EthNodeDiscoveryConnection_init ''10.0.0.2'' discovery_base eth_node)) eth_node))"
proof -
  let ?conn = "fst (EthNodeDiscoveryConnection_init ''10.0.0.2'' discovery_base eth_node)"
  have open_base: "\<not> marked_for_close discovery_base"
    by (simp add: discovery_base_def)
  note first = discovery_ping_pong [of discovery_base "''10.0.0.2''" eth_node "[9]" ?conn, unfolded Let_def]
  from open_base first have waiting: "\<not> pong_received ?conn"
    by blast
  from open_base first
  have alarm: "eth_alarms (snd (EthNodeDiscoveryConnection_init ''10.0.0.2'' discovery_base eth_node))
                = eth_alarms eth_node @ [(eth_clock eth_node + DISCOVERY_PONG_TIMEOUT_SEC, PongTimeout)]"
    by blast
  from open_base first
  obtain ping where ping: "ping_message ?conn = Some ping" "outputbuf ?conn = outputbuf discovery_base @ [ping]"
    by blast
  have "ping_message ?conn = Some
          \<lparr>ping_private_key = [42], ping_protocol_version = 4,
           ping_listen_address = (''10.0.0.1'', 30303, 30303),
           ping_remote_address = (''10.0.0.2'', 30303, 30303), ping_expiration = 160\<rparr>"
    by (simp add: EthNodeDiscoveryConnection_init_def send_ping_def discovery_base_def eth_node_def
          P2P_PROTOCOL_VERSION_def PING_MSG_TTL_SEC_def Let_def)
  with ping have sent: "outputbuf ?conn =
       [\<lparr>ping_private_key = [42], ping_protocol_version = 4,
         ping_listen_address = (''10.0.0.1'', 30303, 30303),
         ping_remote_address = (''10.0.0.2'', 30303, 30303), ping_expiration = 160\<rparr>]"
    by (simp add: discovery_base_def)
  from waiting first have timed_out: "marked_for_close (pong_timeout ?conn)"
    by blast
  from first have answered:
    "remote_public_key (snd (msg_pong [9] ?conn eth_node)) = Some [9]
     \<and> pong_received (fst (msg_pong [9] ?conn eth_node))
     \<and> marked_for_close (fst (msg_pong [9] ?conn eth_node))"
    by blast
  from open_base sent alarm waiting timed_out answered show ?thesis
    by (simp add: eth_node_def DISCOVERY_PONG_TIMEOUT_SEC_def)
qed

subsection \<open>Keys from the BDN\<close>

text \<open>
  C10. When the in-progress store already has an encryption key for the block hash of a
  key message, \<open>process_block_key\<close> returns right after its statistics event: nothing is
  decrypted, the stored keys and ciphertexts are unchanged and the key message is not
  forwarded. When no key was stored, every run that returns has forwarded the key message
  to the gateway peers.
\<close>

theorem process_block_key_known_key:
  "(has_encryption_key_for_hash (in_progress_blocks n) (key_block_hash msg) \<longrightarrow>
      process_block_key msg conn n =
        Inr (add_effect (BlockStatEvent (key_block_hash msg) ENC_BLOCK_KEY_RECEIVED_BY_GATEWAY_FROM_NETWORK) n))
   \<and> (\<not> has_encryption_key_for_hash (in_progress_blocks n) (key_block_hash msg) \<longrightarrow>
        (\<forall>n'. process_block_key msg conn n = Inr n' \<longrightarrow>
           Broadcast (Key msg) (Some conn) False [GATEWAY] \<in> set (effects n')))"
  by (auto simp add: process_block_key_def add_effect_def Let_def broadcast_def
           split: sum.splits option.splits if_splits)

theorem process_block_key_known_key_witness:
  "has_encryption_key_for_hash (in_progress_blocks node_with_key) (key_block_hash sample_key_msg)
   \<and> in_progress_blocks (projr (process_block_key sample_key_msg relay_conn node_with_key))
       = in_progress_blocks node_with_key
   \<and> filter is_broadcast (effects (projr (process_block_key sample_key_msg relay_conn node_with_key))) = []
   \<and> \<not> has_encryption_key_for_hash (in_progress_blocks sample_node) (key_block_hash sample_key_msg)
   \<and> \<not> isl (process_block_key sample_key_msg relay_conn sample_node)
   \<and> Broadcast (Key sample_key_msg) (Some relay_conn) False [GATEWAY]
        \<in> set (effects (projr (process_block_key sample_key_msg relay_conn sample_node)))"
proof -
  have known: "has_encryption_key_for_hash (in_progress_blocks node_with_key) (key_block_hash sample_key_msg)"
    by (simp add: has_encryption_key_for_hash_def node_with_key_def sample_key_msg_def)
  have unknown: "\<not> has_encryption_key_for_hash (in_progress_blocks sample_node) (key_block_hash sample_key_msg)"
    by (simp add: has_encryption_key_for_hash_def sample_node_def)
  have returns: "process_block_key sample_key_msg relay_conn sample_node
                  = Inr (projr (process_block_key sample_key_msg relay_conn sample_node))"
    by (simp add: process_block_key_def has_encryption_key_for_hash_def has_ciphertext_for_hash_def
          sample_node_def add_effect_def broadcast_def Let_def)
  from known process_block_key_known_key [of node_with_key sample_key_msg relay_conn]
  have "process_block_key sample_key_msg relay_conn node_with_key =
          Inr (add_effect (BlockStatEvent (key_block_hash sample_key_msg)
                 ENC_BLOCK_KEY_RECEIVED_BY_GATEWAY_FROM_NETWORK) node_with_key)"
    by blast
  moreover from unknown returns process_block_key_known_key [of sample_node sample_key_msg relay_conn]
  have "Broadcast (Key sample_key_msg) (Some relay_conn) False [GATEWAY]
          \<in> set (effects (projr (process_block_key sample_key_msg relay_conn sample_node)))"
    by blast
  moreover have "\<not> isl (process_block_key sample_key_msg relay_conn sample_node)"
    by (subst returns) simp
  ultimately show ?thesis
    using known unknown by (simp add: add_effect_def node_with_key_def sample_node_def)
qed

end
